theory Spec2Isabelle
  imports Main "HOL-Library.AList" "HOL-Library.Sublist"
begin

section \<open>The environment of the scripts\<close>

text \<open>
  The scripts of this repository do no computation of their own: they probe the host for
  executables, read and write a few directories, and run external programs.  The model
  therefore makes the environment explicit.

  \<^item> A path is the list of its components below the root (Python's \<open>pathlib.Path\<close>,
    absolute and normalised; symbolic links, permissions and the current directory are
    not modelled, so \<open>Path.resolve()\<close> is the identity).
  \<^item> The file system is a tree: a regular file with its size in bytes, or a directory
    with its entries in listing order.
  \<^item> The host (\<open>world\<close>) answers \<open>shutil.which\<close> and gives the exit code and the
    effect on the file system of every external program; both are arbitrary functions,
    and every theorem holds for all of them.
  \<^item> A script action is a function from the file system to a result (a Python exception
    or a value), the new file system and the list of events it produced: the
    subprocesses it started and the directory scans it made.
\<close>

type_synonym path = "string list"

datatype node = File nat | Dir "(string \<times> node) list"

datatype exn =
    SystemExit nat
  | CalledProcessError
  | FileNotFoundError
  | FileExistsError
  | NotADirectoryError
  | IsADirectoryError
  | IndexError
  | ShutilError

datatype event =
    Run "string list" "int option"
  | Glob path string
  | Iterdir path
  | Rglob path string
  | Report "nat list"

record world =
  which :: "node \<Rightarrow> string \<Rightarrow> bool"
  tool :: "string list \<Rightarrow> node \<Rightarrow> int \<times> node"
  json_size :: "string \<Rightarrow> string \<Rightarrow> nat"

type_synonym 'a io = "node \<Rightarrow> (exn + 'a) \<times> node \<times> event list"

subsection \<open>Paths\<close>

definition path_parent :: "path \<Rightarrow> path" where
  "path_parent p = butlast p"

definition path_name :: "path \<Rightarrow> string" where
  "path_name p = (if p = [] then [] else last p)"

definition str_path :: "path \<Rightarrow> string" where
  "str_path p = (if p = [] then ''/'' else concat (map (\<lambda>c. ''/'' @ c) p))"

definition endswith :: "string \<Rightarrow> string \<Rightarrow> bool" where
  "endswith s suf \<longleftrightarrow> length suf \<le> length s \<and> drop (length s - length suf) s = suf"

text \<open>
  The only glob patterns of the scripts are a star followed by a literal suffix.
  \<open>pathlib\<close> matches the whole name, hidden names included, and on POSIX with case.
\<close>

definition glob_match :: "string \<Rightarrow> string \<Rightarrow> bool" where
  "glob_match pat nm = (case pat of [] \<Rightarrow> nm = [] | c # suf \<Rightarrow>
     if c = CHR ''*'' then endswith nm suf else nm = pat)"

subsection \<open>The file system\<close>

primrec lookup :: "path \<Rightarrow> node \<Rightarrow> node option" where
  "lookup [] n = Some n"
| "lookup (c # cs) n = (case n of
      File _ \<Rightarrow> None
    | Dir es \<Rightarrow> (case map_of es c of None \<Rightarrow> None | Some n' \<Rightarrow> lookup cs n'))"

definition path_exists :: "path \<Rightarrow> node \<Rightarrow> bool" where
  "path_exists p fs \<longleftrightarrow> lookup p fs \<noteq> None"

definition is_dir :: "path \<Rightarrow> node \<Rightarrow> bool" where
  "is_dir p fs = (case lookup p fs of Some (Dir _) \<Rightarrow> True | _ \<Rightarrow> False)"

fun node_is_file :: "node \<Rightarrow> bool" where
  "node_is_file (File _) = True"
| "node_is_file (Dir _) = False"

fun node_is_dir :: "node \<Rightarrow> bool" where
  "node_is_dir (File _) = False"
| "node_is_dir (Dir _) = True"

fun node_size :: "node \<Rightarrow> nat" where
  "node_size (File n) = n"
| "node_size (Dir _) = 0"

text \<open>\<open>Path.mkdir(parents=True, exist_ok=True)\<close>: an existing directory is left alone,
  missing ancestors are created, a regular file in the way raises.\<close>

primrec mkdir :: "path \<Rightarrow> node \<Rightarrow> exn + node" where
  "mkdir [] n = (case n of Dir _ \<Rightarrow> Inr n | File _ \<Rightarrow> Inl FileExistsError)"
| "mkdir (c # cs) n = (case n of
      File _ \<Rightarrow> Inl NotADirectoryError
    | Dir es \<Rightarrow>
        (case mkdir cs (case map_of es c of None \<Rightarrow> Dir [] | Some n' \<Rightarrow> n') of
           Inl e \<Rightarrow> Inl e
         | Inr n'' \<Rightarrow> Inr (Dir (AList.update c n'' es))))"

text \<open>The entries of a directory whose name matches a pattern (\<open>Path.glob\<close>); a path
  that is no directory has none.\<close>

definition glob :: "path \<Rightarrow> string \<Rightarrow> node \<Rightarrow> path list" where
  "glob d pat fs = (case lookup d fs of
      Some (Dir es) \<Rightarrow> map (\<lambda>e. d @ [fst e]) (filter (\<lambda>e. glob_match pat (fst e)) es)
    | _ \<Rightarrow> [])"

text \<open>Everything below a directory, with its node (\<open>Path.rglob\<close> walks this list).\<close>

fun walk :: "path \<Rightarrow> node \<Rightarrow> (path \<times> node) list" where
  "walk p (File _) = []"
| "walk p (Dir es) =
     concat (map (\<lambda>e. (p @ [fst e], snd e) # walk (p @ [fst e]) (snd e)) es)"

definition rglob :: "path \<Rightarrow> string \<Rightarrow> node \<Rightarrow> (path \<times> node) list" where
  "rglob d pat fs = (case lookup d fs of
      Some n \<Rightarrow> filter (\<lambda>e. glob_match pat (path_name (fst e))) (walk d n)
    | None \<Rightarrow> [])"

subsection \<open>Actions\<close>

definition io_return :: "'a \<Rightarrow> 'a io" where
  "io_return x = (\<lambda>fs. (Inr x, fs, []))"

definition io_raise :: "exn \<Rightarrow> 'a io" where
  "io_raise e = (\<lambda>fs. (Inl e, fs, []))"

definition io_bind :: "'a io \<Rightarrow> ('a \<Rightarrow> 'b io) \<Rightarrow> 'b io" where
  "io_bind m f = (\<lambda>fs. case m fs of
      (Inl e, fs', evs) \<Rightarrow> (Inl e, fs', evs)
    | (Inr x, fs', evs) \<Rightarrow> (case f x fs' of (r, fs'', evs') \<Rightarrow> (r, fs'', evs @ evs')))"

text \<open>\<open>sys.exit\<close> raises \<open>SystemExit\<close>, which \<open>except Exception\<close> does not catch.\<close>

definition sys_exit :: "nat \<Rightarrow> 'a io" where
  "sys_exit n = io_raise (SystemExit n)"

fun is_Exception :: "exn \<Rightarrow> bool" where
  "is_Exception (SystemExit _) = False"
| "is_Exception _ = True"

definition try_except_Exception :: "'a io \<Rightarrow> (exn \<Rightarrow> 'a io) \<Rightarrow> 'a io" where
  "try_except_Exception m h = (\<lambda>fs. case m fs of
      (Inl e, fs', evs) \<Rightarrow>
        (if is_Exception e
         then (case h e fs' of (r, fs'', evs') \<Rightarrow> (r, fs'', evs @ evs'))
         else (Inl e, fs', evs))
    | (Inr x, fs', evs) \<Rightarrow> (Inr x, fs', evs))"

text \<open>The status the interpreter exits with: 0 when \<open>main\<close> returns, the argument of
  \<open>sys.exit\<close>, and 1 after an uncaught exception.\<close>

fun exit_status :: "exn + unit \<Rightarrow> nat" where
  "exit_status (Inr _) = 0"
| "exit_status (Inl (SystemExit n)) = n"
| "exit_status (Inl _) = 1"

definition result :: "(exn + 'a) \<times> node \<times> event list \<Rightarrow> exn + 'a" where
  "result r = fst r"

definition final_fs :: "(exn + 'a) \<times> node \<times> event list \<Rightarrow> node" where
  "final_fs r = fst (snd r)"

definition events :: "(exn + 'a) \<times> node \<times> event list \<Rightarrow> event list" where
  "events r = snd (snd r)"

definition io_which :: "world \<Rightarrow> string \<Rightarrow> bool io" where
  "io_which w prog = (\<lambda>fs. (Inr (which w fs prog), fs, []))"

definition io_exists :: "path \<Rightarrow> bool io" where
  "io_exists p = (\<lambda>fs. (Inr (path_exists p fs), fs, []))"

definition io_mkdir :: "path \<Rightarrow> unit io" where
  "io_mkdir p = (\<lambda>fs. case mkdir p fs of
      Inl e \<Rightarrow> (Inl e, fs, [])
    | Inr fs' \<Rightarrow> (Inr (), fs', []))"

definition io_glob :: "path \<Rightarrow> string \<Rightarrow> path list io" where
  "io_glob d pat = (\<lambda>fs. (Inr (glob d pat fs), fs, [Glob d pat]))"

definition io_rglob :: "path \<Rightarrow> string \<Rightarrow> (path \<times> node) list io" where
  "io_rglob d pat = (\<lambda>fs. (Inr (rglob d pat fs), fs, [Rglob d pat]))"

text \<open>\<open>Path.iterdir\<close> raises on a path that is no directory.\<close>

definition io_iterdir :: "path \<Rightarrow> (path \<times> node) list io" where
  "io_iterdir d = (\<lambda>fs. case lookup d fs of
      Some (Dir es) \<Rightarrow> (Inr (map (\<lambda>e. (d @ [fst e], snd e)) es), fs, [Iterdir d])
    | Some (File _) \<Rightarrow> (Inl NotADirectoryError, fs, [Iterdir d])
    | None \<Rightarrow> (Inl FileNotFoundError, fs, [Iterdir d]))"

text \<open>\<open>Path.stat().st_size\<close>.\<close>

definition io_stat :: "path \<Rightarrow> nat io" where
  "io_stat p = (\<lambda>fs. case lookup p fs of
      None \<Rightarrow> (Inl FileNotFoundError, fs, [])
    | Some n \<Rightarrow> (Inr (node_size n), fs, []))"

fun io_stat_all :: "path list \<Rightarrow> unit io" where
  "io_stat_all [] = io_return ()"
| "io_stat_all (f # fs) = io_bind (io_stat f) (\<lambda>_. io_stat_all fs)"

text \<open>The numbers a script prints about its output.\<close>

definition io_report :: "nat list \<Rightarrow> unit io" where
  "io_report ns = (\<lambda>fs. (Inr (), fs, [Report ns]))"

text \<open>
  \<open>subprocess.run(cmd)\<close>: the program is looked up on the search path, and a missing
  one raises \<open>FileNotFoundError\<close>; otherwise the program runs to its end, changes the
  file system as the host says and its exit code is returned.  With \<open>check=True\<close> a
  non-zero exit code raises \<open>CalledProcessError\<close>.
\<close>

definition subprocess_run :: "world \<Rightarrow> string list \<Rightarrow> int io" where
  "subprocess_run w cmd = (\<lambda>fs. case cmd of
      [] \<Rightarrow> (Inl IndexError, fs, [])
    | prog # _ \<Rightarrow>
        if which w fs prog
        then (case tool w cmd fs of (rc, fs') \<Rightarrow> (Inr rc, fs', [Run cmd (Some rc)]))
        else (Inl FileNotFoundError, fs, [Run cmd None]))"

definition subprocess_run_check :: "world \<Rightarrow> string list \<Rightarrow> unit io" where
  "subprocess_run_check w cmd =
     io_bind (subprocess_run w cmd) (\<lambda>rc.
       if rc \<noteq> 0 then io_raise CalledProcessError else io_return ())"

section \<open>The raster pipeline: \<open>scripts/process_terrain.py\<close>\<close>

text \<open>The directories are fixed below the project directory, which is a parameter.\<close>

definition RAW_DATA_DIR :: "path \<Rightarrow> path" where
  "RAW_DATA_DIR proj = proj @ [''data'', ''raw'']"

definition PROCESSED_DIR :: "path \<Rightarrow> path" where
  "PROCESSED_DIR proj = proj @ [''data'', ''processed'']"

definition OUTPUT_DIR :: "path \<Rightarrow> path" where
  "OUTPUT_DIR proj = proj @ [''terrain-tiles'']"

text \<open>\<open>check_dependencies\<close> returns \<open>False\<close> (here \<open>None\<close>) or the three probes.\<close>

definition check_dependencies :: "world \<Rightarrow> (bool \<times> bool \<times> bool) option io" where
  "check_dependencies w =
     io_bind (io_which w ''docker'') (\<lambda>docker_available.
     io_bind (io_which w ''gdalwarp'') (\<lambda>gdal_available.
     io_bind (io_which w ''ctb-tile'') (\<lambda>ctb_available.
       if \<not> docker_available \<and> \<not> (gdal_available \<and> ctb_available)
       then io_return None
       else io_return (Some (docker_available, gdal_available, ctb_available)))))"

definition find_input_files :: "path \<Rightarrow> path list io" where
  "find_input_files proj =
     io_bind (io_mkdir (RAW_DATA_DIR proj)) (\<lambda>_.
     io_bind (io_glob (RAW_DATA_DIR proj) ''*.tif'') (\<lambda>tifs.
     io_bind (io_glob (RAW_DATA_DIR proj) ''*.tiff'') (\<lambda>tiffs.
       let tif_files = tifs @ tiffs in
       if tif_files = [] then io_return []
       else io_bind (io_stat_all tif_files) (\<lambda>_. io_return tif_files))))"

subsection \<open>The command lines\<close>

definition gdal_merge_docker :: "path \<Rightarrow> path list \<Rightarrow> string list" where
  "gdal_merge_docker proj input_files =
     [''docker'', ''run'', ''--rm'',
      ''-v'', str_path (RAW_DATA_DIR proj) @ '':/data/input'',
      ''-v'', str_path (PROCESSED_DIR proj) @ '':/data/output'',
      ''osgeo/gdal:latest'',
      ''gdal_merge.py'', ''-o'', ''/data/output/merged.tif'']
     @ map (\<lambda>f. ''/data/input/'' @ path_name f) input_files"

definition gdalwarp_docker :: "path \<Rightarrow> path \<Rightarrow> string list" where
  "gdalwarp_docker proj input_file =
     [''docker'', ''run'', ''--rm'',
      ''-v'', str_path (path_parent input_file) @ '':/data/input'',
      ''-v'', str_path (PROCESSED_DIR proj) @ '':/data/output'',
      ''osgeo/gdal:latest'',
      ''gdalwarp'',
      ''-t_srs'', ''EPSG:4326'',
      ''-r'', ''bilinear'',
      ''-of'', ''GTiff'',
      ''/data/input/'' @ path_name input_file,
      ''/data/output/wgs84.tif'']"

definition ctb_tile_docker :: "path \<Rightarrow> string list" where
  "ctb_tile_docker proj =
     [''docker'', ''run'', ''--rm'',
      ''-v'', str_path (PROCESSED_DIR proj) @ '':/data/input'',
      ''-v'', str_path (OUTPUT_DIR proj) @ '':/data/output'',
      ''tumgis/ctb-quantized-mesh'',
      ''ctb-tile'',
      ''-f'', ''Mesh'',
      ''-C'',
      ''-N'',
      ''-o'', ''/data/output'',
      ''/data/input/wgs84.tif'']"

definition ctb_layer_docker :: "path \<Rightarrow> string list" where
  "ctb_layer_docker proj =
     [''docker'', ''run'', ''--rm'',
      ''-v'', str_path (PROCESSED_DIR proj) @ '':/data/input'',
      ''-v'', str_path (OUTPUT_DIR proj) @ '':/data/output'',
      ''tumgis/ctb-quantized-mesh'',
      ''ctb-tile'',
      ''-f'', ''Mesh'',
      ''-l'',
      ''-o'', ''/data/output'',
      ''/data/input/wgs84.tif'']"

definition gdal_merge_local :: "path \<Rightarrow> path list \<Rightarrow> string list" where
  "gdal_merge_local proj input_files =
     [''gdal_merge.py'', ''-o'', str_path (PROCESSED_DIR proj @ [''merged.tif''])]
     @ map str_path input_files"

definition gdalwarp_local :: "path \<Rightarrow> path \<Rightarrow> string list" where
  "gdalwarp_local proj input_file =
     [''gdalwarp'',
      ''-t_srs'', ''EPSG:4326'',
      ''-r'', ''bilinear'',
      ''-of'', ''GTiff'',
      str_path input_file,
      str_path (PROCESSED_DIR proj @ [''wgs84.tif''])]"

definition ctb_tile_local :: "path \<Rightarrow> string list" where
  "ctb_tile_local proj =
     [''ctb-tile'',
      ''-f'', ''Mesh'',
      ''-C'',
      ''-N'',
      ''-o'', str_path (OUTPUT_DIR proj),
      str_path (PROCESSED_DIR proj @ [''wgs84.tif''])]"

definition ctb_layer_local :: "path \<Rightarrow> string list" where
  "ctb_layer_local proj =
     [''ctb-tile'',
      ''-f'', ''Mesh'',
      ''-l'',
      ''-o'', str_path (OUTPUT_DIR proj),
      str_path (PROCESSED_DIR proj @ [''wgs84.tif''])]"

subsection \<open>The two execution paths\<close>

text \<open>\<open>input_files[0]\<close> raises \<open>IndexError\<close> on an empty list.\<close>

definition first_input :: "path list \<Rightarrow> path io" where
  "first_input input_files = (case input_files of
      [] \<Rightarrow> io_raise IndexError
    | f # _ \<Rightarrow> io_return f)"

definition process_with_docker :: "world \<Rightarrow> path \<Rightarrow> path list \<Rightarrow> unit io" where
  "process_with_docker w proj input_files =
     io_bind (io_mkdir (PROCESSED_DIR proj)) (\<lambda>_.
     io_bind (io_mkdir (OUTPUT_DIR proj)) (\<lambda>_.
     io_bind
       (if 1 < length input_files
        then io_bind (subprocess_run_check w (gdal_merge_docker proj input_files)) (\<lambda>_.
               io_return (PROCESSED_DIR proj @ [''merged.tif'']))
        else first_input input_files) (\<lambda>input_file.
     io_bind (subprocess_run_check w (gdalwarp_docker proj input_file)) (\<lambda>_.
     io_bind (subprocess_run_check w (ctb_tile_docker proj)) (\<lambda>_.
     subprocess_run_check w (ctb_layer_docker proj))))))"

definition process_with_local_tools ::
  "world \<Rightarrow> path \<Rightarrow> path list \<Rightarrow> bool \<Rightarrow> bool \<Rightarrow> unit io" where
  "process_with_local_tools w proj input_files gdal_available ctb_available =
     io_bind (io_mkdir (PROCESSED_DIR proj)) (\<lambda>_.
     io_bind (io_mkdir (OUTPUT_DIR proj)) (\<lambda>_.
     io_bind
       (if 1 < length input_files
        then io_bind (subprocess_run_check w (gdal_merge_local proj input_files)) (\<lambda>_.
               io_return (PROCESSED_DIR proj @ [''merged.tif'']))
        else first_input input_files) (\<lambda>input_file.
     io_bind (subprocess_run_check w (gdalwarp_local proj input_file)) (\<lambda>_.
       if ctb_available
       then io_bind (subprocess_run_check w (ctb_tile_local proj)) (\<lambda>_.
              subprocess_run_check w (ctb_layer_local proj))
       else io_return ()))))"

subsection \<open>The output verifier\<close>

text \<open>
  \<open>verify_output\<close> prints the number of zoom-level directories, the number of tile
  files and the total size; the three numbers are the \<open>Report\<close> event.
\<close>

definition verify_output :: "path \<Rightarrow> bool io" where
  "verify_output proj =
     io_bind (io_exists (OUTPUT_DIR proj @ [''layer.json''])) (\<lambda>layer_json_exists.
       if layer_json_exists
       then
         io_bind (io_iterdir (OUTPUT_DIR proj)) (\<lambda>entries.
         io_bind (io_rglob (OUTPUT_DIR proj) ''*.terrain'') (\<lambda>terrain_files.
         io_bind (io_rglob (OUTPUT_DIR proj) ''*'') (\<lambda>everything.
           let tile_dirs = filter (\<lambda>d. node_is_dir (snd d)) entries;
               total_size = sum_list (map (\<lambda>f. node_size (snd f))
                                 (filter (\<lambda>f. node_is_file (snd f)) everything))
           in io_bind (io_report [length tile_dirs, length terrain_files, total_size]) (\<lambda>_.
              io_return True))))
       else io_return False)"

subsection \<open>\<open>main\<close>\<close>

text \<open>\<open>argv\<close> is \<open>sys.argv[1:]\<close>, each argument already a path.\<close>

definition main_terrain :: "world \<Rightarrow> path \<Rightarrow> path list \<Rightarrow> unit io" where
  "main_terrain w proj argv =
     io_bind (check_dependencies w) (\<lambda>deps.
       case deps of
         None \<Rightarrow> sys_exit 1
       | Some (docker_available, gdal_available, ctb_available) \<Rightarrow>
           io_bind
             (case argv of
                input_path # _ \<Rightarrow>
                  io_bind (io_exists input_path) (\<lambda>found.
                    if found then io_return [input_path] else sys_exit 1)
              | [] \<Rightarrow> find_input_files proj) (\<lambda>input_files.
           if input_files = [] then sys_exit 1
           else
             try_except_Exception
               (io_bind
                  (if docker_available
                   then process_with_docker w proj input_files
                   else process_with_local_tools w proj input_files
                          gdal_available ctb_available) (\<lambda>_.
                io_bind (verify_output proj) (\<lambda>_. io_return ())))
               (\<lambda>e. sys_exit 1)))"

section \<open>The point-cloud pipeline: \<open>scripts/process_laz.py\<close>\<close>

subsection \<open>Writing and moving files\<close>

text \<open>\<open>open(p, 'w')\<close> followed by a write of \<open>sz\<close> bytes: the directory of \<open>p\<close> must
  exist, and \<open>p\<close> must not be a directory.\<close>

primrec write_file :: "path \<Rightarrow> nat \<Rightarrow> node \<Rightarrow> exn + node" where
  "write_file [] sz n = Inl IsADirectoryError"
| "write_file (c # cs) sz n = (case n of
      File _ \<Rightarrow> Inl NotADirectoryError
    | Dir es \<Rightarrow>
        if cs = []
        then (case map_of es c of
                Some (Dir _) \<Rightarrow> Inl IsADirectoryError
              | _ \<Rightarrow> Inr (Dir (AList.update c (File sz) es)))
        else (case map_of es c of
                None \<Rightarrow> Inl FileNotFoundError
              | Some n' \<Rightarrow>
                  (case write_file cs sz n' of
                     Inl e \<Rightarrow> Inl e
                   | Inr n'' \<Rightarrow> Inr (Dir (AList.update c n'' es)))))"

primrec remove :: "path \<Rightarrow> node \<Rightarrow> node" where
  "remove [] n = n"
| "remove (c # cs) n = (case n of
      File _ \<Rightarrow> n
    | Dir es \<Rightarrow>
        if cs = [] then Dir (AList.delete c es)
        else (case map_of es c of
                None \<Rightarrow> n
              | Some n' \<Rightarrow> Dir (AList.update c (remove cs n') es)))"

primrec put :: "path \<Rightarrow> node \<Rightarrow> node \<Rightarrow> exn + node" where
  "put [] x n = Inl FileExistsError"
| "put (c # cs) x n = (case n of
      File _ \<Rightarrow> Inl NotADirectoryError
    | Dir es \<Rightarrow>
        if cs = [] then Inr (Dir (AList.update c x es))
        else (case map_of es c of
                None \<Rightarrow> Inl FileNotFoundError
              | Some n' \<Rightarrow>
                  (case put cs x n' of
                     Inl e \<Rightarrow> Inl e
                   | Inr n'' \<Rightarrow> Inr (Dir (AList.update c n'' es)))))"

text \<open>
  \<open>shutil.move(src, dst)\<close>.  A destination that is a directory receives the source
  under its own name, unless that name is taken; source and destination the same path
  is no change; a regular file replaces a regular file; a directory cannot replace a
  file or move below itself.
\<close>

definition rename_to_new :: "path \<Rightarrow> node \<Rightarrow> path \<Rightarrow> node \<Rightarrow> exn + node" where
  "rename_to_new src n dst fs =
     (if prefix src dst
      then Inl (if node_is_dir n then ShutilError else NotADirectoryError)
      else put dst n (remove src fs))"

definition shutil_move :: "path \<Rightarrow> path \<Rightarrow> node \<Rightarrow> exn + node" where
  "shutil_move src dst fs = (case lookup src fs of
      None \<Rightarrow> Inl FileNotFoundError
    | Some n \<Rightarrow>
        if src = dst then Inr fs
        else if is_dir dst fs
        then (if path_exists (dst @ [path_name src]) fs then Inl ShutilError
              else rename_to_new src n (dst @ [path_name src]) fs)
        else if path_exists dst fs
        then (if node_is_dir n then Inl FileExistsError
              else put dst n (remove src fs))
        else rename_to_new src n dst fs)"

definition io_write :: "path \<Rightarrow> nat \<Rightarrow> unit io" where
  "io_write p sz = (\<lambda>fs. case write_file p sz fs of
      Inl e \<Rightarrow> (Inl e, fs, [])
    | Inr fs' \<Rightarrow> (Inr (), fs', []))"

definition io_move :: "path \<Rightarrow> path \<Rightarrow> unit io" where
  "io_move src dst = (\<lambda>fs. case shutil_move src dst fs of
      Inl e \<Rightarrow> (Inl e, fs, [])
    | Inr fs' \<Rightarrow> (Inr (), fs', []))"

subsection \<open>The command lines\<close>

definition pdal_pipeline_docker :: "path \<Rightarrow> path \<Rightarrow> path \<Rightarrow> string list" where
  "pdal_pipeline_docker proj laz_file output_tif =
     [''docker'', ''run'', ''--rm'',
      ''-v'', str_path (path_parent laz_file) @ '':/data/input_dir'',
      ''-v'', str_path (path_parent output_tif) @ '':/data'',
      ''-v'', str_path (path_parent (PROCESSED_DIR proj @ [''pipeline.json''])) @ '':/data/config'',
      ''pdal/pdal:latest'',
      ''pdal'', ''pipeline'', ''/data/config/pipeline.json'',
      ''--readers.las.filename=/data/input_dir/'' @ path_name laz_file,
      ''--writers.gdal.filename=/data/output.tif'']"

definition pdal_translate_docker :: "path \<Rightarrow> path \<Rightarrow> string list" where
  "pdal_translate_docker laz_file output_tif =
     [''docker'', ''run'', ''--rm'',
      ''-v'', str_path (path_parent laz_file) @ '':/input'',
      ''-v'', str_path (path_parent output_tif) @ '':/output'',
      ''pdal/pdal:latest'',
      ''pdal'', ''translate'',
      ''/input/'' @ path_name laz_file,
      ''/output/dem.tif'',
      ''--writers.gdal.resolution=1.0'',
      ''--writers.gdal.output_type=idw'']"

definition pdal_pipeline_local :: "path \<Rightarrow> string list" where
  "pdal_pipeline_local proj =
     [''pdal'', ''pipeline'', str_path (PROCESSED_DIR proj @ [''pipeline.json''])]"

definition gdalwarp_laz_docker :: "path \<Rightarrow> string list" where
  "gdalwarp_laz_docker input_tif =
     [''docker'', ''run'', ''--rm'',
      ''-v'', str_path (path_parent input_tif) @ '':/data'',
      ''osgeo/gdal:latest'',
      ''gdalwarp'',
      ''-t_srs'', ''EPSG:4326'',
      ''-r'', ''bilinear'',
      ''-of'', ''GTiff'',
      ''-co'', ''COMPRESS=LZW'',
      ''/data/'' @ path_name input_tif,
      ''/data/wgs84.tif'']"

definition gdalwarp_laz_local :: "path \<Rightarrow> path \<Rightarrow> string list" where
  "gdalwarp_laz_local input_tif output_tif =
     [''gdalwarp'',
      ''-t_srs'', ''EPSG:4326'',
      ''-r'', ''bilinear'',
      ''-of'', ''GTiff'',
      ''-co'', ''COMPRESS=LZW'',
      str_path input_tif,
      str_path output_tif]"

definition ctb_tile_laz :: "path \<Rightarrow> path \<Rightarrow> string list" where
  "ctb_tile_laz proj dem_tif =
     [''docker'', ''run'', ''--rm'',
      ''-v'', str_path (path_parent dem_tif) @ '':/data/input'',
      ''-v'', str_path (OUTPUT_DIR proj) @ '':/data/output'',
      ''tumgis/ctb-quantized-mesh'',
      ''ctb-tile'',
      ''-f'', ''Mesh'',
      ''-C'',
      ''-N'',
      ''-o'', ''/data/output'',
      ''/data/input/'' @ path_name dem_tif]"

definition ctb_layer_laz :: "path \<Rightarrow> path \<Rightarrow> string list" where
  "ctb_layer_laz proj dem_tif =
     [''docker'', ''run'', ''--rm'',
      ''-v'', str_path (path_parent dem_tif) @ '':/data/input'',
      ''-v'', str_path (OUTPUT_DIR proj) @ '':/data/output'',
      ''tumgis/ctb-quantized-mesh'',
      ''ctb-tile'',
      ''-f'', ''Mesh'',
      ''-l'',
      ''-o'', ''/data/output'',
      ''/data/input/'' @ path_name dem_tif]"

definition pdal_info_local :: "path \<Rightarrow> string list" where
  "pdal_info_local filepath = [''pdal'', ''info'', ''--summary'', str_path filepath]"

definition pdal_info_docker :: "path \<Rightarrow> string list" where
  "pdal_info_docker filepath =
     [''docker'', ''run'', ''--rm'',
      ''-v'', str_path (path_parent filepath) @ '':/data'',
      ''pdal/pdal:latest'',
      ''pdal'', ''info'', ''--summary'', ''/data/'' @ path_name filepath]"

subsection \<open>The stages\<close>

text \<open>The three probes of \<open>check_dependencies\<close>: docker, pdal, gdal.\<close>

definition check_dependencies_laz :: "world \<Rightarrow> (bool \<times> bool \<times> bool) io" where
  "check_dependencies_laz w =
     io_bind (io_which w ''docker'') (\<lambda>docker.
     io_bind (io_which w ''pdal'') (\<lambda>pdal.
     io_bind (io_which w ''gdalwarp'') (\<lambda>gdal.
       io_return (docker, pdal, gdal))))"

definition convert_laz_simple_docker :: "world \<Rightarrow> path \<Rightarrow> path \<Rightarrow> bool io" where
  "convert_laz_simple_docker w laz_file output_tif =
     io_bind (subprocess_run w (pdal_translate_docker laz_file output_tif)) (\<lambda>_.
     io_bind (io_exists (path_parent output_tif @ [''dem.tif''])) (\<lambda>temp_exists.
       if temp_exists
       then io_bind (io_move (path_parent output_tif @ [''dem.tif'']) output_tif) (\<lambda>_.
              io_return True)
       else io_return False))"

text \<open>The size of the pipeline description written by \<open>json.dump\<close> is the host's.\<close>

definition convert_laz_to_dem_docker :: "world \<Rightarrow> path \<Rightarrow> path \<Rightarrow> path \<Rightarrow> bool io" where
  "convert_laz_to_dem_docker w proj laz_file output_tif =
     io_bind (io_mkdir (path_parent output_tif)) (\<lambda>_.
     io_bind (io_mkdir (path_parent (PROCESSED_DIR proj @ [''pipeline.json'']))) (\<lambda>_.
     io_bind (io_write (PROCESSED_DIR proj @ [''pipeline.json''])
                (json_size w ''/data/input.laz'' ''/data/output.tif'')) (\<lambda>_.
     io_bind (subprocess_run w (pdal_pipeline_docker proj laz_file output_tif)) (\<lambda>returncode.
       if returncode \<noteq> 0
       then convert_laz_simple_docker w laz_file output_tif
       else
         io_bind (io_exists (path_parent output_tif @ [''output.tif''])) (\<lambda>temp_exists.
         io_bind (if temp_exists
                  then io_move (path_parent output_tif @ [''output.tif'']) output_tif
                  else io_return ()) (\<lambda>_.
         io_exists output_tif))))))"

definition convert_laz_to_dem_pdal :: "world \<Rightarrow> path \<Rightarrow> path \<Rightarrow> path \<Rightarrow> bool io" where
  "convert_laz_to_dem_pdal w proj laz_file output_tif =
     io_bind (io_mkdir (path_parent output_tif)) (\<lambda>_.
     io_bind (io_write (PROCESSED_DIR proj @ [''pipeline.json''])
                (json_size w (str_path laz_file) (str_path output_tif))) (\<lambda>_.
     io_bind (subprocess_run w (pdal_pipeline_local proj)) (\<lambda>returncode.
       if returncode \<noteq> 0 then io_return False
       else io_exists output_tif)))"

text \<open>\<open>reproject_to_wgs84\<close> returns from inside its docker branch when the container
  left its output; \<open>finished\<close> is that early return.\<close>

definition reproject_to_wgs84 :: "world \<Rightarrow> path \<Rightarrow> path \<Rightarrow> bool io" where
  "reproject_to_wgs84 w input_tif output_tif =
     io_bind (io_which w ''docker'') (\<lambda>have_docker.
     io_bind
       (if have_docker
        then io_bind (subprocess_run w (gdalwarp_laz_docker input_tif)) (\<lambda>_.
             io_bind (io_exists (path_parent input_tif @ [''wgs84.tif''])) (\<lambda>temp_exists.
               if temp_exists
               then io_bind (io_move (path_parent input_tif @ [''wgs84.tif'']) output_tif) (\<lambda>_.
                      io_return True)
               else io_return False))
        else io_return False) (\<lambda>finished.
       if finished then io_return True
       else
         io_bind (io_which w ''gdalwarp'') (\<lambda>have_gdal.
           if have_gdal
           then io_bind (subprocess_run w (gdalwarp_laz_local input_tif output_tif)) (\<lambda>_.
                  io_exists output_tif)
           else io_return False)))"

definition create_terrain_tiles :: "world \<Rightarrow> path \<Rightarrow> path \<Rightarrow> bool io" where
  "create_terrain_tiles w proj dem_tif =
     io_bind (io_mkdir (OUTPUT_DIR proj)) (\<lambda>_.
     io_bind (subprocess_run w (ctb_tile_laz proj dem_tif)) (\<lambda>returncode.
     io_bind (subprocess_run w (ctb_layer_laz proj dem_tif)) (\<lambda>_.
     io_exists (OUTPUT_DIR proj @ [''layer.json'']))))"

definition get_file_info :: "world \<Rightarrow> path \<Rightarrow> unit io" where
  "get_file_info w filepath =
     io_bind (io_stat filepath) (\<lambda>_.
     io_bind (io_which w ''pdal'') (\<lambda>have_pdal.
       if have_pdal
       then io_bind (subprocess_run w (pdal_info_local filepath)) (\<lambda>_. io_return ())
       else
         io_bind (io_which w ''docker'') (\<lambda>have_docker.
           if have_docker
           then io_bind (subprocess_run w (pdal_info_docker filepath)) (\<lambda>_. io_return ())
           else io_return ())))"

subsection \<open>\<open>main\<close>\<close>

definition select_laz_file :: "path \<Rightarrow> path list \<Rightarrow> path io" where
  "select_laz_file proj argv = (case argv of
      [] \<Rightarrow>
        io_bind (io_mkdir (RAW_DATA_DIR proj)) (\<lambda>_.
        io_bind (io_glob (RAW_DATA_DIR proj) ''*.laz'') (\<lambda>lazs.
        io_bind (io_glob (RAW_DATA_DIR proj) ''*.las'') (\<lambda>lass.
          case lazs @ lass of
            [] \<Rightarrow> sys_exit 1
          | laz_file # _ \<Rightarrow> io_return laz_file)))
    | laz_file # _ \<Rightarrow>
        io_bind (io_exists laz_file) (\<lambda>found.
          if \<not> found then sys_exit 1 else io_return laz_file))"

definition verification_laz :: "path \<Rightarrow> unit io" where
  "verification_laz proj =
     io_bind (io_exists (OUTPUT_DIR proj @ [''layer.json''])) (\<lambda>layer_json_exists.
       if layer_json_exists
       then
         io_bind (io_rglob (OUTPUT_DIR proj) ''*.terrain'') (\<lambda>terrain_files.
         io_bind (io_rglob (OUTPUT_DIR proj) ''*'') (\<lambda>everything.
           io_report [length terrain_files,
             sum_list (map (\<lambda>f. node_size (snd f))
               (filter (\<lambda>f. node_is_file (snd f)) everything))]))
       else io_return ())"

text \<open>\<open>main\<close> after the input file has been chosen: the dependency check and the
  stages.\<close>

definition run_laz_pipeline :: "world \<Rightarrow> path \<Rightarrow> path \<Rightarrow> unit io" where
  "run_laz_pipeline w proj laz_file =
     io_bind (check_dependencies_laz w) (\<lambda>(docker, pdal, gdal).
       if \<not> docker \<and> \<not> pdal then sys_exit 1
       else
         io_bind (get_file_info w laz_file) (\<lambda>_.
         io_bind (io_mkdir (PROCESSED_DIR proj)) (\<lambda>_.
         io_bind
           (if docker
            then convert_laz_to_dem_docker w proj laz_file (PROCESSED_DIR proj @ [''dem.tif''])
            else if pdal
            then convert_laz_to_dem_pdal w proj laz_file (PROCESSED_DIR proj @ [''dem.tif''])
            else io_return False) (\<lambda>success.
         io_bind (io_exists (PROCESSED_DIR proj @ [''dem.tif''])) (\<lambda>dem_exists.
           if \<not> success \<or> \<not> dem_exists then sys_exit 1
           else
             io_bind (reproject_to_wgs84 w (PROCESSED_DIR proj @ [''dem.tif''])
                        (PROCESSED_DIR proj @ [''wgs84.tif''])) (\<lambda>reprojected.
               if \<not> reprojected then sys_exit 1
               else
                 io_bind (create_terrain_tiles w proj (PROCESSED_DIR proj @ [''wgs84.tif''])) (\<lambda>_.
                 verification_laz proj)))))))"

definition main_laz :: "world \<Rightarrow> path \<Rightarrow> path list \<Rightarrow> unit io" where
  "main_laz w proj argv =
     io_bind (select_laz_file proj argv) (\<lambda>laz_file. run_laz_pipeline w proj laz_file)"

section \<open>The tile server: \<open>server.py\<close>\<close>

text \<open>
  \<open>CORSRequestHandler\<close> overrides three methods of the standard library's
  \<open>SimpleHTTPRequestHandler\<close>.  Of the base class the model keeps what the overrides
  call: \<open>send_response\<close> buffers the status line and the \<open>Server\<close> and \<open>Date\<close>
  headers, \<open>send_header\<close> buffers one header, and the base \<open>end_headers\<close> buffers the
  blank line and writes the buffer out (for a request of HTTP/1.0 or later).  What a
  response carries is what has been written to \<open>wfile\<close>.
\<close>

datatype line = StatusLine nat | Header string string | BlankLine

record handler =
  path :: string
  version_string :: string
  date_time_string :: string
  headers_buffer :: "line list"
  wfile :: "line list"
  body :: "nat list"

definition send_response :: "nat \<Rightarrow> handler \<Rightarrow> handler" where
  "send_response code h =
     h\<lparr>headers_buffer := headers_buffer h @
         [StatusLine code, Header ''Server'' (version_string h),
          Header ''Date'' (date_time_string h)]\<rparr>"

definition send_header :: "string \<Rightarrow> string \<Rightarrow> handler \<Rightarrow> handler" where
  "send_header keyword val h = h\<lparr>headers_buffer := headers_buffer h @ [Header keyword val]\<rparr>"

definition base_end_headers :: "handler \<Rightarrow> handler" where
  "base_end_headers h =
     h\<lparr>wfile := wfile h @ headers_buffer h @ [BlankLine], headers_buffer := []\<rparr>"

definition end_headers :: "handler \<Rightarrow> handler" where
  "end_headers h =
     (let h1 = send_header ''Access-Control-Allow-Origin'' ''*'' h;
          h2 = send_header ''Access-Control-Allow-Methods'' ''GET, OPTIONS'' h1;
          h3 = send_header ''Access-Control-Allow-Headers'' ''*'' h2;
          h4 = (if endswith (path h3) ''.terrain''
                then send_header ''Content-Type'' ''application/octet-stream''
                       (send_header ''Content-Encoding'' ''gzip'' h3)
                else h3)
      in base_end_headers h4)"

definition do_OPTIONS :: "handler \<Rightarrow> handler" where
  "do_OPTIONS h = end_headers (send_response 200 h)"

text \<open>The base class's \<open>guess_type\<close> is a parameter.\<close>

definition guess_type :: "(string \<Rightarrow> string) \<Rightarrow> string \<Rightarrow> string" where
  "guess_type super_guess_type p =
     (if endswith p ''.terrain'' then ''application/octet-stream'' else super_guess_type p)"

text \<open>
  \<open>self.path\<close> is the request target as it stands in the request line, query string
  included.  To find the file to serve, the base class's \<open>translate_path\<close> begins by
  abandoning the query string and the fragment (\<open>path.split('?',1)[0]\<close>, then
  \<open>path.split('#',1)[0]\<close>): what is left is the path of the request, which names the
  file below the served directory.
\<close>

definition url_path :: "string \<Rightarrow> string" where
  "url_path target =
     takeWhile (\<lambda>c. c \<noteq> CHR ''#'') (takeWhile (\<lambda>c. c \<noteq> CHR ''?'') target)"

text \<open>
  The base class's \<open>send_head\<close>, which answers \<open>GET\<close> and \<open>HEAD\<close>, in the case
  where the target translates to a regular file \<open>file\<close> that can be opened and the
  request has no \<open>If-Modified-Since\<close> header: status 200, the media type that
  \<open>guess_type\<close> gives for the file, its length and its modification time, then
  \<open>end_headers\<close>.
\<close>

definition send_head ::
  "(string \<Rightarrow> string) \<Rightarrow> string \<Rightarrow> string \<Rightarrow> string \<Rightarrow> handler \<Rightarrow> handler" where
  "send_head super_guess_type file content_length last_modified h =
     (let ctype = guess_type super_guess_type file;
          h1 = send_response 200 h;
          h2 = send_header ''Content-type'' ctype h1;
          h3 = send_header ''Content-Length'' content_length h2;
          h4 = send_header ''Last-Modified'' last_modified h3
      in end_headers h4)"

text \<open>Header names are compared without case.\<close>

definition ascii_lower :: "char \<Rightarrow> char" where
  "ascii_lower c =
     (case map_of (zip ''ABCDEFGHIJKLMNOPQRSTUVWXYZ'' ''abcdefghijklmnopqrstuvwxyz'') c of
        Some l \<Rightarrow> l
      | None \<Rightarrow> c)"

fun is_header :: "string \<Rightarrow> line \<Rightarrow> bool" where
  "is_header nm (Header k v) = (map ascii_lower k = map ascii_lower nm)"
| "is_header nm _ = False"

definition has_header :: "string \<Rightarrow> line list \<Rightarrow> bool" where
  "has_header nm ls = list_ex (is_header nm) ls"

section \<open>Vocabulary of the properties\<close>

fun skip_mounts :: "string list \<Rightarrow> string list" where
  "skip_mounts (a # m # rest) = (if a = ''-v'' then skip_mounts rest else a # m # rest)"
| "skip_mounts xs = xs"

definition program_of :: "string list \<Rightarrow> string" where
  "program_of cmd = (case cmd of
      [] \<Rightarrow> []
    | p # rest \<Rightarrow>
        if p = ''docker''
        then (case skip_mounts (drop 2 rest) of img # prog # _ \<Rightarrow> prog | _ \<Rightarrow> [])
        else p)"

fun follows :: "string list list \<Rightarrow> event list \<Rightarrow> bool" where
  "follows cs [] = True"
| "follows [] (e # evs) = False"
| "follows (c # cs) (e # evs) = (case e of
      Run cmd r \<Rightarrow> cmd = c \<and> (evs = [] \<or> (r = Some 0 \<and> follows cs evs))
    | _ \<Rightarrow> False)"

fun is_run :: "event \<Rightarrow> bool" where
  "is_run (Run cmd r) = True"
| "is_run _ = False"

fun failed_run :: "event \<Rightarrow> bool" where
  "failed_run (Run cmd r) = (r \<noteq> Some 0)"
| "failed_run _ = False"

text \<open>An action that produces no event.\<close>

definition silent :: "'a io \<Rightarrow> bool" where
  "silent m \<longleftrightarrow> (\<forall>fs. events (m fs) = [])"

text \<open>An action all of whose events satisfy \<open>P\<close>.\<close>

definition emits :: "(event \<Rightarrow> bool) \<Rightarrow> 'a io \<Rightarrow> bool" where
  "emits P m \<longleftrightarrow> (\<forall>fs. list_all P (events (m fs)))"

definition chains :: "string list list \<Rightarrow> 'a io \<Rightarrow> bool" where
  "chains cs m \<longleftrightarrow> (\<forall>fs. follows cs (events (m fs)))"

text \<open>The three numbers the output verifier prints.\<close>

definition zoom_level_count :: "path \<Rightarrow> node \<Rightarrow> nat" where
  "zoom_level_count proj fs = (case lookup (OUTPUT_DIR proj) fs of
      Some (Dir es) \<Rightarrow> length (filter (\<lambda>e. node_is_dir (snd e)) es)
    | _ \<Rightarrow> 0)"

definition tile_count :: "path \<Rightarrow> node \<Rightarrow> nat" where
  "tile_count proj fs = length (rglob (OUTPUT_DIR proj) ''*.terrain'' fs)"

definition total_size :: "path \<Rightarrow> node \<Rightarrow> nat" where
  "total_size proj fs =
     sum_list (map (\<lambda>f. node_size (snd f))
       (filter (\<lambda>f. node_is_file (snd f)) (rglob (OUTPUT_DIR proj) ''*'' fs)))"

text \<open>The lines one call of \<open>end_headers\<close> or \<open>do_OPTIONS\<close> puts on the wire.\<close>

definition written :: "handler \<Rightarrow> handler \<Rightarrow> line list" where
  "written h h' = drop (length (wfile h)) (wfile h')"

definition cors_headers :: "line list" where
  "cors_headers =
     [Header ''Access-Control-Allow-Origin'' ''*'',
      Header ''Access-Control-Allow-Methods'' ''GET, OPTIONS'',
      Header ''Access-Control-Allow-Headers'' ''*'']"

definition gzip_headers :: "line list" where
  "gzip_headers =
     [Header ''Content-Encoding'' ''gzip'', Header ''Content-Type'' ''application/octet-stream'']"

text \<open>The arguments of the program a command line runs, and the options among them when
  the last two arguments are the source and the destination.\<close>

definition arguments_of :: "string list \<Rightarrow> string list" where
  "arguments_of cmd = (case cmd of
      [] \<Rightarrow> []
    | p # rest \<Rightarrow>
        if p = ''docker''
        then (case skip_mounts (drop 2 rest) of img # prog # args \<Rightarrow> args | _ \<Rightarrow> [])
        else rest)"

definition option_part :: "string list \<Rightarrow> string list" where
  "option_part cmd = take (length (arguments_of cmd) - 2) (arguments_of cmd)"

definition option_given :: "string \<Rightarrow> string \<Rightarrow> string list \<Rightarrow> bool" where
  "option_given opt val opts \<longleftrightarrow> (opt, val) \<in> set (zip opts (tl opts))"

definition compressed_options :: "string list \<Rightarrow> bool" where
  "compressed_options opts \<longleftrightarrow>
     list_ex (\<lambda>ov. fst ov = ''-co'' \<and> take 9 (snd ov) = ''COMPRESS='' \<and> snd ov \<noteq> ''COMPRESS=NONE'')
       (zip opts (tl opts))"

definition raster_warp_options :: "string list" where
  "raster_warp_options = [''-t_srs'', ''EPSG:4326'', ''-r'', ''bilinear'', ''-of'', ''GTiff'']"

definition laz_warp_options :: "string list" where
  "laz_warp_options =
     [''-t_srs'', ''EPSG:4326'', ''-r'', ''bilinear'', ''-of'', ''GTiff'', ''-co'', ''COMPRESS=LZW'']"

fun warps_with :: "string list \<Rightarrow> event \<Rightarrow> bool" where
  "warps_with opts (Run cmd r) = (program_of cmd = ''gdalwarp'' \<longrightarrow> option_part cmd = opts)"
| "warps_with opts _ = True"

text \<open>The events a run of either script may produce when the file \<open>a\<close> is its input:
  no directory is globbed, only the output directory is searched, and every command is
  one of those listed.\<close>

fun single_input_terrain :: "path \<Rightarrow> path \<Rightarrow> event \<Rightarrow> bool" where
  "single_input_terrain proj a (Run cmd r) =
     (cmd \<in> set [gdalwarp_docker proj a, ctb_tile_docker proj, ctb_layer_docker proj,
                 gdalwarp_local proj a, ctb_tile_local proj, ctb_layer_local proj])"
| "single_input_terrain proj a (Glob d pat) = False"
| "single_input_terrain proj a (Iterdir d) = (d = OUTPUT_DIR proj)"
| "single_input_terrain proj a (Rglob d pat) = (d = OUTPUT_DIR proj)"
| "single_input_terrain proj a (Report ns) = True"

fun single_input_laz :: "path \<Rightarrow> path \<Rightarrow> event \<Rightarrow> bool" where
  "single_input_laz proj a (Run cmd r) =
     (cmd \<in> set [pdal_info_local a, pdal_info_docker a,
                 pdal_pipeline_docker proj a (PROCESSED_DIR proj @ [''dem.tif'']),
                 pdal_translate_docker a (PROCESSED_DIR proj @ [''dem.tif'']),
                 pdal_pipeline_local proj,
                 gdalwarp_laz_docker (PROCESSED_DIR proj @ [''dem.tif'']),
                 gdalwarp_laz_local (PROCESSED_DIR proj @ [''dem.tif''])
                   (PROCESSED_DIR proj @ [''wgs84.tif'']),
                 ctb_tile_laz proj (PROCESSED_DIR proj @ [''wgs84.tif'']),
                 ctb_layer_laz proj (PROCESSED_DIR proj @ [''wgs84.tif''])])"
| "single_input_laz proj a (Glob d pat) = False"
| "single_input_laz proj a (Iterdir d) = False"
| "single_input_laz proj a (Rglob d pat) = (d = OUTPUT_DIR proj)"
| "single_input_laz proj a (Report ns) = True"

text \<open>An action whose exceptions all end the process with status 1; an action that
  raises an exception whenever one of its subprocesses failed.\<close>

definition fails_with_1 :: "'a io \<Rightarrow> bool" where
  "fails_with_1 m \<longleftrightarrow> (\<forall>fs e. result (m fs) = Inl e \<longrightarrow> exit_status (Inl e) = 1)"

definition fails_closed :: "'a io \<Rightarrow> bool" where
  "fails_closed m \<longleftrightarrow>
     (\<forall>fs. list_ex failed_run (events (m fs)) \<longrightarrow>
        (\<exists>e. result (m fs) = Inl e \<and> is_Exception e))"

definition failure_exits_1 :: "unit io \<Rightarrow> bool" where
  "failure_exits_1 m \<longleftrightarrow>
     (\<forall>fs. list_ex failed_run (events (m fs)) \<longrightarrow> exit_status (result (m fs)) = 1)"

fun completed :: "string list \<Rightarrow> event \<Rightarrow> bool" where
  "completed c (Run cmd r) = (cmd = c \<and> r \<noteq> None)"
| "completed c _ = False"

definition exit_0_iff_completed :: "string list \<Rightarrow> unit io \<Rightarrow> bool" where
  "exit_0_iff_completed c m \<longleftrightarrow>
     (\<forall>fs. exit_status (result (m fs)) = (if list_ex (completed c) (events (m fs)) then 0 else 1))"

text \<open>The last part of the point-cloud script: tiling, then the report.\<close>

definition tiling_and_report :: "world \<Rightarrow> path \<Rightarrow> path \<Rightarrow> unit io" where
  "tiling_and_report w proj dem_tif =
     io_bind (create_terrain_tiles w proj dem_tif) (\<lambda>_. verification_laz proj)"

section \<open>Example hosts\<close>

text \<open>
  Concrete hosts and file systems on which the theorems below are instantiated.  A host
  is given by the programs on its search path and by the exit code of every command; a
  command that exits with 0 leaves the file its real counterpart would write below the
  project directory \<open>/srv\<close>.
\<close>

definition touch :: "path \<Rightarrow> nat \<Rightarrow> node \<Rightarrow> node" where
  "touch p sz fs = (case mkdir (path_parent p) fs of
      Inl e \<Rightarrow> fs
    | Inr fs' \<Rightarrow> (case write_file p sz fs' of Inl e \<Rightarrow> fs | Inr fs'' \<Rightarrow> fs''))"

definition tool_effect :: "string list \<Rightarrow> node \<Rightarrow> node" where
  "tool_effect cmd fs =
     (if program_of cmd = ''pdal'' \<and> ''pipeline'' \<in> set cmd
      then touch [''srv'', ''data'', ''processed'',
                  if hd cmd = ''docker'' then ''output.tif'' else ''dem.tif''] 4096 fs
      else if program_of cmd = ''pdal'' \<and> ''translate'' \<in> set cmd
      then touch [''srv'', ''data'', ''processed'', ''dem.tif''] 4096 fs
      else if program_of cmd = ''gdal_merge.py''
      then touch [''srv'', ''data'', ''processed'', ''merged.tif''] 8192 fs
      else if program_of cmd = ''gdalwarp''
      then touch [''srv'', ''data'', ''processed'', ''wgs84.tif''] 4096 fs
      else if program_of cmd = ''ctb-tile''
      then (if ''-l'' \<in> set cmd
            then touch [''srv'', ''terrain-tiles'', ''layer.json''] 120 fs
            else touch [''srv'', ''terrain-tiles'', ''0'', ''0'', ''0.terrain''] 900 fs)
      else fs)"

definition host :: "string list \<Rightarrow> (string list \<Rightarrow> int) \<Rightarrow> world" where
  "host progs exit_code =
     \<lparr>which = (\<lambda>fs prog. prog \<in> set progs),
      tool = (\<lambda>cmd fs. (exit_code cmd, if exit_code cmd = 0 then tool_effect cmd fs else fs)),
      json_size = (\<lambda>a b. 300)\<rparr>"

definition exits_zero :: "string list \<Rightarrow> int" where
  "exits_zero cmd = 0"

definition tiling_fails :: "string list \<Rightarrow> int" where
  "tiling_fails cmd = (if program_of cmd = ''ctb-tile'' then 1 else 0)"

definition pipeline_fails :: "string list \<Rightarrow> int" where
  "pipeline_fails cmd = (if ''pipeline'' \<in> set cmd then 1 else 0)"

definition host_docker :: world where
  "host_docker = host [''docker''] exits_zero"

definition host_local :: world where
  "host_local = host [''gdalwarp'', ''ctb-tile'', ''gdal_merge.py''] exits_zero"

definition two_tifs :: "path list" where
  "two_tifs = [[''srv'', ''data'', ''raw'', ''a.tif''], [''srv'', ''data'', ''raw'', ''b.tif'']]"

definition raw_one_tif :: node where
  "raw_one_tif =
     Dir [(''srv'', Dir [(''data'', Dir [(''raw'', Dir [(''a.tif'', File 1000)])])])]"

definition raw_one_laz :: node where
  "raw_one_laz =
     Dir [(''srv'', Dir [(''data'', Dir [(''raw'', Dir [(''dsm.laz'', File 5000)])])])]"

definition tiles_layer_only :: node where
  "tiles_layer_only = Dir [(''srv'', Dir [(''terrain-tiles'', Dir [(''layer.json'', File 120)])])]"

definition options_request :: "string \<Rightarrow> handler" where
  "options_request p =
     \<lparr>path = p, version_string = ''SimpleHTTP/0.6'',
      date_time_string = ''Thu, 01 Jan 2026 00:00:00 GMT'',
      headers_buffer = [], wfile = [], body = []\<rparr>"

definition get_request :: "string \<Rightarrow> handler" where
  "get_request target =
     \<lparr>path = target, version_string = ''SimpleHTTP/0.6'',
      date_time_string = ''Thu, 01 Jan 2026 00:00:00 GMT'',
      headers_buffer = [], wfile = [], body = []\<rparr>"

definition raw_three_tifs :: node where
  "raw_three_tifs =
     Dir [(''srv'', Dir [(''data'', Dir [(''raw'',
       Dir [(''a.tif'', File 1000), (''b.tif'', File 2000), (''c.tif'', File 3000)])])])]"

definition processed_only :: node where
  "processed_only =
     Dir [(''srv'', Dir [(''data'', Dir [(''processed'', Dir [(''wgs84.tif'', File 4096)])]),
                         (''terrain-tiles'', Dir [(''layer.json'', File 120)])])]"

section \<open>Reasoning about actions\<close>

lemma events_simps [simp]:
  "events (r, fs, evs) = evs" "result (r, fs, evs) = r" "final_fs (r, fs, evs) = fs"
  by (simp_all add: events_def result_def final_fs_def)

lemma io_bind_return [simp]: "io_bind (io_return x) f = f x"
  by (rule ext) (simp add: io_bind_def io_return_def split: prod.splits)

lemma io_bind_raise [simp]: "io_bind (io_raise e) f = io_raise e"
  by (rule ext) (simp add: io_bind_def io_raise_def)

lemma io_bind_sys_exit [simp]: "io_bind (sys_exit n) f = sys_exit n"
  by (simp add: sys_exit_def)

lemma io_bind_assoc: "io_bind (io_bind m f) g = io_bind m (\<lambda>x. io_bind (f x) g)"
  by (rule ext) (simp add: io_bind_def split: prod.splits sum.splits)

lemma io_bind_which: "io_bind (io_which w prog) f fs = f (which w fs prog) fs"
  by (simp add: io_bind_def io_which_def split: prod.splits)

lemma io_bind_exists: "io_bind (io_exists p) f fs = f (path_exists p fs) fs"
  by (simp add: io_bind_def io_exists_def split: prod.splits)

lemma io_bind_mkdir:
  "io_bind (io_mkdir p) f fs = (case mkdir p fs of Inl e \<Rightarrow> (Inl e, fs, []) | Inr fs' \<Rightarrow> f () fs')"
  by (simp add: io_bind_def io_mkdir_def split: prod.splits sum.splits)

lemma io_bind_write:
  "io_bind (io_write p sz) f fs =
     (case write_file p sz fs of Inl e \<Rightarrow> (Inl e, fs, []) | Inr fs' \<Rightarrow> f () fs')"
  by (simp add: io_bind_def io_write_def split: prod.splits sum.splits)

lemma io_bind_move:
  "io_bind (io_move a b) f fs =
     (case shutil_move a b fs of Inl e \<Rightarrow> (Inl e, fs, []) | Inr fs' \<Rightarrow> f () fs')"
  by (simp add: io_bind_def io_move_def split: prod.splits sum.splits)

lemma result_bind:
  "result (io_bind m f fs) =
     (case m fs of (Inl e, fs', evs) \<Rightarrow> Inl e | (Inr x, fs', evs) \<Rightarrow> result (f x fs'))"
  by (simp add: io_bind_def result_def split: prod.splits sum.splits)

lemma events_bind:
  "events (io_bind m f fs) =
     (case m fs of (Inl e, fs', evs) \<Rightarrow> evs | (Inr x, fs', evs) \<Rightarrow> evs @ events (f x fs'))"
  by (simp add: io_bind_def events_def split: prod.splits sum.splits)

lemma final_fs_bind:
  "final_fs (io_bind m f fs) =
     (case m fs of (Inl e, fs', evs) \<Rightarrow> fs' | (Inr x, fs', evs) \<Rightarrow> final_fs (f x fs'))"
  by (simp add: io_bind_def final_fs_def split: prod.splits sum.splits)

lemma run_cases:
  assumes "cmd \<noteq> []"
  obtains (ran) rc fs' where "subprocess_run w cmd fs = (Inr rc, fs', [Run cmd (Some rc)])"
  | (missing) "subprocess_run w cmd fs = (Inl FileNotFoundError, fs, [Run cmd None])"
  using assms
  by (cases cmd; cases "which w fs (hd cmd)"; cases "tool w cmd fs")
     (auto simp: subprocess_run_def)

lemma run_check_cases:
  assumes "cmd \<noteq> []"
  obtains (ok) fs' where
      "subprocess_run_check w cmd fs = (Inr (), fs', [Run cmd (Some 0)])"
  | (nonzero) rc fs' where "rc \<noteq> 0"
      "subprocess_run_check w cmd fs = (Inl CalledProcessError, fs', [Run cmd (Some rc)])"
  | (missing)
      "subprocess_run_check w cmd fs = (Inl FileNotFoundError, fs, [Run cmd None])"
  using assms
proof (cases rule: run_cases [where w = w and fs = fs])
  case (ran rc fs')
  show ?thesis
  proof (cases "rc = 0")
    case True
    with ran have "subprocess_run_check w cmd fs = (Inr (), fs', [Run cmd (Some 0)])"
      by (simp add: subprocess_run_check_def io_bind_def io_return_def)
    then show ?thesis by (rule ok)
  next
    case False
    with ran have
      "subprocess_run_check w cmd fs = (Inl CalledProcessError, fs', [Run cmd (Some rc)])"
      by (simp add: subprocess_run_check_def io_bind_def io_raise_def)
    with False show ?thesis by (rule nonzero)
  qed
next
  case missing
  then have "subprocess_run_check w cmd fs = (Inl FileNotFoundError, fs, [Run cmd None])"
    by (simp add: subprocess_run_check_def io_bind_def)
  then show ?thesis by (rule that(3))
qed

lemma silent_bind: "silent m \<Longrightarrow> (\<And>x. silent (f x)) \<Longrightarrow> silent (io_bind m f)"
  unfolding silent_def
proof
  fix fs
  assume m: "\<forall>fs. events (m fs) = []" and f: "\<And>x. \<forall>fs. events (f x fs) = []"
  obtain res fs' evs where r: "m fs = (res, fs', evs)"
    by (cases "m fs") auto
  with m have "evs = []"
    by (metis events_simps(1))
  with r f show "events (io_bind m f fs) = []"
    by (cases res) (simp_all add: events_bind)
qed

lemma silent_primitives [simp]:
  "silent (io_return x)" "silent (io_raise e)" "silent (sys_exit n)" "silent (io_mkdir p)"
  "silent (io_exists p)" "silent (io_which w prog)" "silent (io_stat p)"
  "silent (io_write p sz)" "silent (io_move a b)" "silent (first_input files)"
  by (auto simp: silent_def io_return_def io_raise_def sys_exit_def io_mkdir_def io_exists_def
      io_which_def io_stat_def io_write_def io_move_def first_input_def
      split: sum.splits option.splits list.splits)

lemma silent_if [simp]: "silent a \<Longrightarrow> silent b \<Longrightarrow> silent (if c then a else b)"
  by simp

lemma silent_stat_all [simp]: "silent (io_stat_all ps)"
  by (induction ps) (simp_all add: silent_bind)

lemma emits_silent: "silent m \<Longrightarrow> emits P m"
  by (simp add: emits_def silent_def)

lemma emits_bind: "emits P m \<Longrightarrow> (\<And>x. emits P (f x)) \<Longrightarrow> emits P (io_bind m f)"
  unfolding emits_def
proof
  fix fs
  assume m: "\<forall>fs. list_all P (events (m fs))" and f: "\<And>x. \<forall>fs. list_all P (events (f x fs))"
  obtain res fs' evs where r: "m fs = (res, fs', evs)"
    by (cases "m fs") auto
  with m have "list_all P evs"
    by (metis events_simps(1))
  with r f show "list_all P (events (io_bind m f fs))"
    by (cases res) (simp_all add: events_bind)
qed

lemma emits_run: "(\<And>r. P (Run cmd r)) \<Longrightarrow> emits P (subprocess_run w cmd)"
  by (auto simp: emits_def subprocess_run_def split: list.splits prod.splits)

lemma emits_run_check: "(\<And>r. P (Run cmd r)) \<Longrightarrow> emits P (subprocess_run_check w cmd)"
  unfolding subprocess_run_check_def
  by (intro emits_bind emits_run) (simp_all add: emits_silent)

lemma emits_scans:
  "P (Glob d pat) \<Longrightarrow> emits P (io_glob d pat)"
  "P (Rglob d pat) \<Longrightarrow> emits P (io_rglob d pat)"
  "P (Iterdir d) \<Longrightarrow> emits P (io_iterdir d)"
  "P (Report ns) \<Longrightarrow> emits P (io_report ns)"
  by (auto simp: emits_def io_glob_def io_rglob_def io_iterdir_def io_report_def
      split: option.splits node.splits)

lemma events_try:
  "events (try_except_Exception m h fs) =
     (case m fs of
        (Inl e, fs', evs) \<Rightarrow> (if is_Exception e then evs @ events (h e fs') else evs)
      | (Inr x, fs', evs) \<Rightarrow> evs)"
  by (simp add: try_except_Exception_def events_def split: prod.splits sum.splits)

lemma emits_try:
  "emits P m \<Longrightarrow> (\<And>e. emits P (h e)) \<Longrightarrow> emits P (try_except_Exception m h)"
  unfolding emits_def
proof
  fix fs
  assume m: "\<forall>fs. list_all P (events (m fs))" and h: "\<And>e. \<forall>fs. list_all P (events (h e fs))"
  obtain res fs' evs where r: "m fs = (res, fs', evs)"
    by (cases "m fs") auto
  with m have "list_all P evs"
    by (metis events_simps(1))
  with r h show "list_all P (events (try_except_Exception m h fs))"
    by (cases res) (simp_all add: events_try)
qed

lemma chains_silent: "silent m \<Longrightarrow> chains cs m"
  by (simp add: chains_def silent_def)

lemma chains_silent_bind:
  assumes "silent m" and "\<And>x. chains cs (f x)"
  shows "chains cs (io_bind m f)"
  unfolding chains_def
proof
  fix fs
  obtain res fs' evs where r: "m fs = (res, fs', evs)"
    by (cases "m fs") auto
  with assms(1) have "evs = []"
    by (metis events_simps(1) silent_def)
  with r assms(2) show "follows cs (events (io_bind m f fs))"
    by (cases res) (simp_all add: events_bind chains_def)
qed

lemma chains_run_check_bind:
  assumes "cmd \<noteq> []" and "\<And>x. chains cs (f x)"
  shows "chains (cmd # cs) (io_bind (subprocess_run_check w cmd) f)"
  unfolding chains_def
proof
  fix fs
  from assms(1) show "follows (cmd # cs) (events (io_bind (subprocess_run_check w cmd) f fs))"
  proof (cases rule: run_check_cases [where w = w and fs = fs])
    case (ok fs')
    with assms(2) [of "()"] show ?thesis
      by (simp add: events_bind chains_def)
  next
    case (nonzero rc fs')
    then show ?thesis by (simp add: events_bind)
  next
    case missing
    then show ?thesis by (simp add: events_bind)
  qed
qed

lemma chains_run_check: "cmd \<noteq> [] \<Longrightarrow> chains (cmd # cs) (subprocess_run_check w cmd)"
proof -
  assume "cmd \<noteq> []"
  then have "chains (cmd # cs) (io_bind (subprocess_run_check w cmd) io_return)"
    by (rule chains_run_check_bind) (simp add: chains_silent)
  moreover have "io_bind (subprocess_run_check w cmd) io_return = subprocess_run_check w cmd"
    by (rule ext) (simp add: io_bind_def io_return_def split: prod.splits sum.splits)
  ultimately show ?thesis by simp
qed

lemma cmd_nonempty [simp]:
  "gdal_merge_docker proj fs \<noteq> []" "gdalwarp_docker proj f \<noteq> []" "ctb_tile_docker proj \<noteq> []"
  "ctb_layer_docker proj \<noteq> []" "gdal_merge_local proj fs \<noteq> []" "gdalwarp_local proj f \<noteq> []"
  "ctb_tile_local proj \<noteq> []" "ctb_layer_local proj \<noteq> []"
  by (simp_all add: gdal_merge_docker_def gdalwarp_docker_def ctb_tile_docker_def ctb_layer_docker_def
      gdal_merge_local_def gdalwarp_local_def ctb_tile_local_def ctb_layer_local_def)

lemmas chains_rules = io_bind_assoc chains_silent chains_silent_bind chains_run_check_bind chains_run_check

lemma docker_multi:
  "1 < length input_files \<Longrightarrow> chains
     [gdal_merge_docker proj input_files, gdalwarp_docker proj (PROCESSED_DIR proj @ [''merged.tif'']),
      ctb_tile_docker proj, ctb_layer_docker proj] (process_with_docker w proj input_files)"
  unfolding process_with_docker_def by (simp add: chains_rules)

lemma docker_single:
  "chains [gdalwarp_docker proj f, ctb_tile_docker proj, ctb_layer_docker proj]
     (process_with_docker w proj [f])"
  unfolding process_with_docker_def by (simp add: chains_rules first_input_def)

lemma local_multi:
  "1 < length input_files \<Longrightarrow> chains
     [gdal_merge_local proj input_files, gdalwarp_local proj (PROCESSED_DIR proj @ [''merged.tif'']),
      ctb_tile_local proj, ctb_layer_local proj]
     (process_with_local_tools w proj input_files g c)"
  unfolding process_with_local_tools_def by (simp add: chains_rules)

lemma local_single:
  "chains [gdalwarp_local proj f, ctb_tile_local proj, ctb_layer_local proj]
     (process_with_local_tools w proj [f] g c)"
  unfolding process_with_local_tools_def by (simp add: chains_rules first_input_def)

lemma program_of_terrain [simp]:
  "program_of (gdal_merge_docker proj files) = ''gdal_merge.py''"
  "program_of (gdal_merge_local proj files) = ''gdal_merge.py''"
  "program_of (gdalwarp_docker proj f) = ''gdalwarp''"
  "program_of (gdalwarp_local proj f) = ''gdalwarp''"
  "program_of (ctb_tile_docker proj) = ''ctb-tile''"
  "program_of (ctb_layer_docker proj) = ''ctb-tile''"
  "program_of (ctb_tile_local proj) = ''ctb-tile''"
  "program_of (ctb_layer_local proj) = ''ctb-tile''"
  by (simp_all add: program_of_def gdal_merge_docker_def gdalwarp_docker_def ctb_tile_docker_def
      ctb_layer_docker_def gdal_merge_local_def gdalwarp_local_def ctb_tile_local_def
      ctb_layer_local_def)

lemma lookup_append:
  "lookup (p @ q) n = (case lookup p n of None \<Rightarrow> None | Some n' \<Rightarrow> lookup q n')"
  by (induction p arbitrary: n) (auto split: node.splits option.splits)

lemma exists_child_parent_dir:
  assumes "path_exists (d @ [c]) fs"
  obtains es where "lookup d fs = Some (Dir es)"
  using assms
  by (auto simp: path_exists_def lookup_append split: option.splits node.splits)

lemma io_bind_glob:
  "io_bind (io_glob d pat) f fs =
     (case f (glob d pat fs) fs of (r, fs', evs) \<Rightarrow> (r, fs', Glob d pat # evs))"
  by (simp add: io_bind_def io_glob_def)

lemma io_bind_rglob:
  "io_bind (io_rglob d pat) f fs =
     (case f (rglob d pat fs) fs of (r, fs', evs) \<Rightarrow> (r, fs', Rglob d pat # evs))"
  by (simp add: io_bind_def io_rglob_def)

lemma io_bind_report:
  "io_bind (io_report ns) f fs =
     (case f () fs of (r, fs', evs) \<Rightarrow> (r, fs', Report ns # evs))"
  by (simp add: io_bind_def io_report_def)

lemma io_bind_iterdir:
  "lookup d fs = Some (Dir es) \<Longrightarrow>
   io_bind (io_iterdir d) f fs =
     (case f (map (\<lambda>e. (d @ [fst e], snd e)) es) fs of
        (r, fs', evs) \<Rightarrow> (r, fs', Iterdir d # evs))"
  by (simp add: io_bind_def io_iterdir_def)

lemma wfile_end_headers:
  "wfile (end_headers h) =
     wfile h @ headers_buffer h @ cors_headers @
     (if endswith (path h) ''.terrain'' then gzip_headers else []) @ [BlankLine]"
  by (simp add: end_headers_def send_header_def base_end_headers_def Let_def
      cors_headers_def gzip_headers_def)

lemma end_headers_other_fields:
  "body (end_headers h) = body h" "path (end_headers h) = path h"
  "headers_buffer (end_headers h) = []"
  by (simp_all add: end_headers_def send_header_def base_end_headers_def Let_def)

lemma has_header_append [simp]:
  "has_header nm (xs @ ys) \<longleftrightarrow> has_header nm xs \<or> has_header nm ys"
  by (simp add: has_header_def)

lemma has_header_simps [simp]:
  "\<not> has_header nm []"
  "has_header nm (l # ls) \<longleftrightarrow> is_header nm l \<or> has_header nm ls"
  by (simp_all add: has_header_def)

lemma not_content_encoding [simp]:
  "\<not> is_header ''Content-Encoding'' (Header ''Server'' v)"
  "\<not> is_header ''Content-Encoding'' (Header ''Date'' v)"
  by (simp_all add: ascii_lower_def)

lemma content_encoding_cors [simp]: "\<not> has_header ''Content-Encoding'' cors_headers"
  by (simp add: has_header_def cors_headers_def ascii_lower_def)

lemma content_encoding_gzip [simp]: "has_header ''Content-Encoding'' gzip_headers"
  by (simp add: has_header_def gzip_headers_def)

lemma emits_if:
  "(c \<Longrightarrow> emits P a) \<Longrightarrow> (\<not> c \<Longrightarrow> emits P b) \<Longrightarrow> emits P (if c then a else b)"
  by simp

lemma emits_primitives [simp]:
  "emits P (io_return x)" "emits P (io_raise e)" "emits P (sys_exit n)" "emits P (io_mkdir p)"
  "emits P (io_exists p)" "emits P (io_which w prog)" "emits P (io_stat p)"
  "emits P (io_write p sz)" "emits P (io_move a b)" "emits P (first_input files)"
  "emits P (io_stat_all ps)"
  by (simp_all add: emits_silent)

lemmas emits_intros = emits_bind emits_if emits_try emits_run emits_run_check emits_scans

lemmas terrain_defs =
  main_terrain_def check_dependencies_def find_input_files_def process_with_docker_def
  process_with_local_tools_def verify_output_def

lemmas laz_defs =
  main_laz_def select_laz_file_def run_laz_pipeline_def check_dependencies_laz_def
  get_file_info_def
  convert_laz_to_dem_docker_def convert_laz_simple_docker_def convert_laz_to_dem_pdal_def
  reproject_to_wgs84_def create_terrain_tiles_def verification_laz_def

text \<open>Everything a run on a concrete host unfolds to.\<close>

lemmas run_defs =
  terrain_defs laz_defs first_input_def
  io_bind_def io_return_def io_raise_def sys_exit_def io_which_def io_exists_def io_mkdir_def
  io_glob_def io_rglob_def io_iterdir_def io_stat_def io_report_def io_write_def io_move_def
  subprocess_run_def subprocess_run_check_def try_except_Exception_def
  RAW_DATA_DIR_def PROCESSED_DIR_def OUTPUT_DIR_def
  path_exists_def is_dir_def glob_def rglob_def glob_match_def endswith_def path_name_def
  path_parent_def str_path_def shutil_move_def rename_to_new_def
  pdal_pipeline_docker_def pdal_translate_docker_def pdal_pipeline_local_def
  gdalwarp_laz_docker_def gdalwarp_laz_local_def ctb_tile_laz_def ctb_layer_laz_def
  pdal_info_local_def pdal_info_docker_def
  gdal_merge_docker_def gdalwarp_docker_def ctb_tile_docker_def ctb_layer_docker_def
  gdal_merge_local_def gdalwarp_local_def ctb_tile_local_def ctb_layer_local_def
  host_def tool_effect_def touch_def program_of_def exits_zero_def tiling_fails_def
  pipeline_fails_def host_docker_def host_local_def raw_one_laz_def raw_one_tif_def

lemma program_of_laz [simp]:
  "program_of (pdal_pipeline_docker proj laz out) = ''pdal''"
  "program_of (pdal_translate_docker laz out) = ''pdal''"
  "program_of (pdal_pipeline_local proj) = ''pdal''"
  "program_of (gdalwarp_laz_docker tif) = ''gdalwarp''"
  "program_of (gdalwarp_laz_local tif out) = ''gdalwarp''"
  "program_of (ctb_tile_laz proj tif) = ''ctb-tile''"
  "program_of (ctb_layer_laz proj tif) = ''ctb-tile''"
  "program_of (pdal_info_local laz) = ''pdal''"
  "program_of (pdal_info_docker laz) = ''pdal''"
  by (simp_all add: program_of_def pdal_pipeline_docker_def pdal_translate_docker_def
      pdal_pipeline_local_def gdalwarp_laz_docker_def gdalwarp_laz_local_def ctb_tile_laz_def
      ctb_layer_laz_def pdal_info_local_def pdal_info_docker_def)

lemma io_bind_if:
  "io_bind (if c then a else b) g = (if c then io_bind a g else io_bind b g)"
  by simp

lemma follows_first:
  assumes "follows (c # cs) evs" and "evs \<noteq> []"
  obtains r rest where "evs = Run c r # rest"
  using assms by (cases evs) (auto split: event.splits)

lemma events_try_append:
  assumes "events (m fs) = e # es"
  obtains tl where "events (try_except_Exception m h fs) = e # tl"
proof -
  obtain res fs' where r: "m fs = (res, fs', e # es)"
    using assms(1) by (cases "m fs") auto
  then have "\<exists>tl. events (try_except_Exception m h fs) = e # tl"
    by (cases res) (simp_all add: events_try)
  with that show thesis by blast
qed

lemma events_bind_append:
  assumes "events (m fs) = e # es"
  obtains tl where "events (io_bind m f fs) = e # tl"
proof -
  obtain res fs' where r: "m fs = (res, fs', e # es)"
    using assms(1) by (cases "m fs") auto
  then have "\<exists>tl. events (io_bind m f fs) = e # tl"
    by (cases res) (simp_all add: events_bind)
  with that show thesis by blast
qed

lemma mkdir_error:
  "mkdir p fs = Inl e \<Longrightarrow> e = FileExistsError \<or> e = NotADirectoryError"
  by (induction p arbitrary: fs) (auto split: node.splits sum.splits)

lemma lookup_empty_dir: "ds \<noteq> [] \<Longrightarrow> lookup ds (Dir []) = None"
  by (cases ds) simp_all

lemma mkdir_lookup_self:
  "mkdir p fs = Inr fs' \<Longrightarrow>
     lookup p fs' = Some (Dir (case lookup p fs of Some (Dir es) \<Rightarrow> es | _ \<Rightarrow> []))"
proof (induction p arbitrary: fs fs')
  case Nil
  then show ?case by (auto split: node.splits)
next
  case (Cons c cs)
  from Cons.prems obtain es where fs: "fs = Dir es"
    by (cases fs) auto
  let ?sub = "case map_of es c of None \<Rightarrow> Dir [] | Some n' \<Rightarrow> n'"
  from Cons.prems fs obtain n'' where sub: "mkdir cs ?sub = Inr n''"
    and fs': "fs' = Dir (AList.update c n'' es)"
    by (auto split: sum.splits)
  from sub have "lookup cs n'' =
      Some (Dir (case lookup cs ?sub of Some (Dir es) \<Rightarrow> es | _ \<Rightarrow> []))"
    by (rule Cons.IH)
  then show ?case
    using fs fs'
    by (cases "map_of es c"; cases "cs = []") (simp_all add: update_conv' lookup_empty_dir)
qed

lemma mkdir_target_is_dir:
  "mkdir p fs = Inr fs' \<Longrightarrow> lookup p fs = Some n \<Longrightarrow> \<exists>es. n = Dir es"
proof (induction p arbitrary: fs fs')
  case Nil
  then show ?case by (auto split: node.splits)
next
  case (Cons c cs)
  from Cons.prems(1) obtain es where fs: "fs = Dir es"
    by (cases fs) auto
  with Cons.prems(2) obtain n' where n': "map_of es c = Some n'" and l: "lookup cs n' = Some n"
    by (auto split: option.splits)
  from Cons.prems(1) fs n' obtain n'' where "mkdir cs n' = Inr n''"
    by (auto split: sum.splits)
  then show ?case using l by (rule Cons.IH)
qed

lemma mkdir_glob: "mkdir p fs = Inr fs' \<Longrightarrow> glob p pat fs' = glob p pat fs"
proof -
  assume m: "mkdir p fs = Inr fs'"
  show ?thesis
  proof (cases "lookup p fs")
    case None
    with mkdir_lookup_self [OF m] show ?thesis
      by (simp add: glob_def)
  next
    case (Some n)
    with m obtain es where "n = Dir es"
      by (blast dest: mkdir_target_is_dir)
    with Some mkdir_lookup_self [OF m] show ?thesis
      by (simp add: glob_def)
  qed
qed

lemma mkdir_lookup_other:
  "mkdir p fs = Inr fs' \<Longrightarrow> \<not> prefix q p \<Longrightarrow> lookup q fs' = lookup q fs"
proof (induction p arbitrary: fs fs' q)
  case Nil
  then show ?case by (auto split: node.splits)
next
  case (Cons c cs)
  from Cons.prems(1) obtain es where fs: "fs = Dir es"
    by (cases fs) auto
  let ?sub = "case map_of es c of None \<Rightarrow> Dir [] | Some n' \<Rightarrow> n'"
  from Cons.prems(1) fs obtain n'' where sub: "mkdir cs ?sub = Inr n''"
    and fs': "fs' = Dir (AList.update c n'' es)"
    by (auto split: sum.splits)
  from Cons.prems(2) obtain d ds where q: "q = d # ds"
    by (cases q) auto
  show ?case
  proof (cases "d = c")
    case False
    with fs fs' q show ?thesis
      by (simp add: update_conv')
  next
    case True
    with Cons.prems(2) q have np: "\<not> prefix ds cs"
      by simp
    then have "ds \<noteq> []"
      by auto
    from sub np have "lookup ds n'' = lookup ds ?sub"
      by (rule Cons.IH)
    with True fs fs' q \<open>ds \<noteq> []\<close> show ?thesis
      by (cases "map_of es c") (simp_all add: update_conv' lookup_empty_dir)
  qed
qed

lemma mkdir_raw_keeps_others:
  assumes "mkdir (RAW_DATA_DIR proj) fs = Inr fs'"
  shows "lookup (PROCESSED_DIR proj) fs' = lookup (PROCESSED_DIR proj) fs"
    and "lookup (OUTPUT_DIR proj) fs' = lookup (OUTPUT_DIR proj) fs"
  using assms
  by (auto intro!: mkdir_lookup_other simp: RAW_DATA_DIR_def PROCESSED_DIR_def OUTPUT_DIR_def)

lemma io_bind_run:
  "cmd \<noteq> [] \<Longrightarrow>
   io_bind (subprocess_run w cmd) k fs =
     (if which w fs (hd cmd)
      then (case tool w cmd fs of (rc, fs') \<Rightarrow>
              (case k rc fs' of (r, fs'', evs) \<Rightarrow> (r, fs'', Run cmd (Some rc) # evs)))
      else (Inl FileNotFoundError, fs, [Run cmd None]))"
  by (cases cmd) (simp_all add: io_bind_def subprocess_run_def split: prod.splits)

lemma cmd_nonempty_laz [simp]:
  "pdal_pipeline_docker proj laz out \<noteq> []" "pdal_translate_docker laz out \<noteq> []"
  "pdal_pipeline_local proj \<noteq> []" "gdalwarp_laz_docker tif \<noteq> []"
  "gdalwarp_laz_local tif out \<noteq> []" "ctb_tile_laz proj tif \<noteq> []"
  "ctb_layer_laz proj tif \<noteq> []" "pdal_info_local laz \<noteq> []" "pdal_info_docker laz \<noteq> []"
  by (simp_all add: pdal_pipeline_docker_def pdal_translate_docker_def
      pdal_pipeline_local_def gdalwarp_laz_docker_def gdalwarp_laz_local_def ctb_tile_laz_def
      ctb_layer_laz_def pdal_info_local_def pdal_info_docker_def)

lemma exception_exits_1: "is_Exception e \<Longrightarrow> exit_status (Inl e) = 1"
  by (cases e) simp_all

lemma write_file_error: "write_file p sz fs = Inl e \<Longrightarrow> is_Exception e"
  by (induction p arbitrary: fs) (auto split: node.splits sum.splits option.splits if_splits)

lemma put_error: "put p x fs = Inl e \<Longrightarrow> is_Exception e"
  by (induction p arbitrary: fs) (auto split: node.splits sum.splits option.splits if_splits)

lemma shutil_move_error: "shutil_move a b fs = Inl e \<Longrightarrow> is_Exception e"
  by (auto simp: shutil_move_def rename_to_new_def split: option.splits if_splits
      dest: put_error)

lemma mkdir_exception: "mkdir p fs = Inl e \<Longrightarrow> is_Exception e"
  by (auto dest: mkdir_error)

lemma fails_with_1_bind:
  "fails_with_1 m \<Longrightarrow> (\<And>x. fails_with_1 (f x)) \<Longrightarrow> fails_with_1 (io_bind m f)"
  unfolding fails_with_1_def
  by (auto simp: result_bind split: prod.splits sum.splits) (metis events_simps(2))+


lemma fails_with_1_primitives [simp]:
  "fails_with_1 (io_return x)" "fails_with_1 (sys_exit 1)" "fails_with_1 (io_mkdir p)"
  "fails_with_1 (io_exists p)" "fails_with_1 (io_which w prog)" "fails_with_1 (io_stat p)"
  "fails_with_1 (io_write p sz)" "fails_with_1 (io_move a b)" "fails_with_1 (first_input files)"
  "fails_with_1 (io_glob d pat)" "fails_with_1 (io_rglob d pat)" "fails_with_1 (io_iterdir d)"
  "fails_with_1 (io_report ns)" "fails_with_1 (subprocess_run w cmd)"
  by (auto simp: fails_with_1_def io_return_def sys_exit_def io_raise_def io_mkdir_def
      io_exists_def io_which_def io_stat_def io_write_def io_move_def first_input_def
      io_glob_def io_rglob_def io_iterdir_def io_report_def subprocess_run_def
      split: sum.splits option.splits list.splits node.splits prod.splits if_splits
      dest!: mkdir_exception write_file_error shutil_move_error exception_exits_1)

lemma fails_with_1_exception [simp]: "is_Exception e \<Longrightarrow> fails_with_1 (io_raise e)"
  by (simp add: fails_with_1_def io_raise_def exception_exits_1)

lemma fails_with_1_run_check [simp]: "fails_with_1 (subprocess_run_check w cmd)"
  unfolding subprocess_run_check_def by (intro fails_with_1_bind) simp_all

lemma fails_with_1_if:
  "(c \<Longrightarrow> fails_with_1 a) \<Longrightarrow> (\<not> c \<Longrightarrow> fails_with_1 b) \<Longrightarrow> fails_with_1 (if c then a else b)"
  by simp

lemma fails_with_1_stat_all [simp]: "fails_with_1 (io_stat_all ps)"
  by (induction ps) (simp_all add: fails_with_1_bind)

lemma fails_with_1_try:
  "fails_with_1 m \<Longrightarrow> (\<And>e. fails_with_1 (h e)) \<Longrightarrow> fails_with_1 (try_except_Exception m h)"
  unfolding fails_with_1_def
proof (intro allI impI)
  fix fs e
  assume m: "\<forall>fs e. result (m fs) = Inl e \<longrightarrow> exit_status (Inl e) = 1"
    and h: "\<And>x. \<forall>fs e. result (h x fs) = Inl e \<longrightarrow> exit_status (Inl e) = 1"
    and r: "result (try_except_Exception m h fs) = Inl e"
  obtain res fs' evs where s: "m fs = (res, fs', evs)"
    by (cases "m fs") auto
  show "exit_status (Inl e) = 1"
  proof (cases res)
    case (Inr x)
    with s r show ?thesis by (simp add: try_except_Exception_def)
  next
    case (Inl x)
    show ?thesis
    proof (cases "is_Exception x")
      case True
      with s Inl r have "result (h x fs') = Inl e"
        by (simp add: try_except_Exception_def result_def split: prod.splits)
      with h show ?thesis by blast
    next
      case False
      with s Inl r have "result (m fs) = Inl e"
        by (simp add: try_except_Exception_def)
      with m show ?thesis by blast
    qed
  qed
qed

lemmas fails_with_1_intros = fails_with_1_bind fails_with_1_if fails_with_1_try

lemma fails_closed_quiet: "emits (\<lambda>e. \<not> failed_run e) m \<Longrightarrow> fails_closed m"
  by (auto simp: fails_closed_def emits_def list_all_iff list_ex_iff)

lemma fails_closed_bind:
  assumes "fails_closed m" and "\<And>x. fails_closed (f x)"
  shows "fails_closed (io_bind m f)"
  unfolding fails_closed_def
proof (intro allI impI)
  fix fs
  assume bad: "list_ex failed_run (events (io_bind m f fs))"
  obtain res fs' evs where s: "m fs = (res, fs', evs)"
    by (cases "m fs") auto
  show "\<exists>e. result (io_bind m f fs) = Inl e \<and> is_Exception e"
  proof (cases res)
    case (Inl x)
    with s bad assms(1) show ?thesis
      by (auto simp: fails_closed_def events_bind result_bind dest!: spec [of _ fs])
  next
    case (Inr x)
    show ?thesis
    proof (cases "list_ex failed_run evs")
      case True
      with s Inr assms(1) show ?thesis
        by (auto simp: fails_closed_def dest!: spec [of _ fs])
    next
      case False
      with s Inr bad have "list_ex failed_run (events (f x fs'))"
        by (simp add: events_bind)
      with assms(2) [of x] s Inr show ?thesis
        by (auto simp: fails_closed_def result_bind)
    qed
  qed
qed

lemma fails_closed_run_check: "fails_closed (subprocess_run_check w cmd)"
proof (cases "cmd = []")
  case True
  then show ?thesis
    by (simp add: fails_closed_def subprocess_run_check_def subprocess_run_def io_bind_def)
next
  case False
  show ?thesis
    unfolding fails_closed_def
  proof (intro allI impI)
    fix fs
    assume "list_ex failed_run (events (subprocess_run_check w cmd fs))"
    with False show "\<exists>e. result (subprocess_run_check w cmd fs) = Inl e \<and> is_Exception e"
      by (cases rule: run_check_cases [where w = w and fs = fs]) simp_all
  qed
qed

lemma fails_closed_if:
  "(c \<Longrightarrow> fails_closed a) \<Longrightarrow> (\<not> c \<Longrightarrow> fails_closed b) \<Longrightarrow> fails_closed (if c then a else b)"
  by simp

lemma fails_closed_silent: "silent m \<Longrightarrow> fails_closed m"
  by (simp add: fails_closed_def silent_def)

lemma failure_exits_1_bind:
  assumes "emits (\<lambda>e. \<not> failed_run e) m" and "\<And>x. failure_exits_1 (f x)"
  shows "failure_exits_1 (io_bind m f)"
  unfolding failure_exits_1_def
proof (intro allI impI)
  fix fs
  assume bad: "list_ex failed_run (events (io_bind m f fs))"
  obtain res fs' evs where s: "m fs = (res, fs', evs)"
    by (cases "m fs") auto
  with assms(1) have q: "\<not> list_ex failed_run evs"
    by (auto simp: emits_def list_all_iff list_ex_iff dest!: spec [of _ fs])
  show "exit_status (result (io_bind m f fs)) = 1"
  proof (cases res)
    case (Inl x)
    with s bad q show ?thesis by (simp add: events_bind)
  next
    case (Inr x)
    with s bad q have "list_ex failed_run (events (f x fs'))"
      by (simp add: events_bind)
    with assms(2) [of x] s Inr show ?thesis
      by (simp add: failure_exits_1_def result_bind)
  qed
qed

lemma failure_exits_1_sys_exit [simp]: "failure_exits_1 (sys_exit 1)"
  by (simp add: failure_exits_1_def sys_exit_def io_raise_def)

lemma failure_exits_1_if:
  "(c \<Longrightarrow> failure_exits_1 a) \<Longrightarrow> (\<not> c \<Longrightarrow> failure_exits_1 b) \<Longrightarrow>
     failure_exits_1 (if c then a else b)"
  by simp

lemma failure_exits_1_try:
  assumes "fails_closed m"
  shows "failure_exits_1 (try_except_Exception m (\<lambda>e. sys_exit 1))"
  unfolding failure_exits_1_def
proof (intro allI impI)
  fix fs
  assume bad: "list_ex failed_run (events (try_except_Exception m (\<lambda>e. sys_exit 1) fs))"
  obtain res fs' evs where s: "m fs = (res, fs', evs)"
    by (cases "m fs") auto
  with bad have "list_ex failed_run (events (m fs))"
    by (cases res) (auto simp: events_try sys_exit_def io_raise_def split: if_splits)
  with assms obtain e where "result (m fs) = Inl e" and "is_Exception e"
    by (auto simp: fails_closed_def)
  with s show "exit_status (result (try_except_Exception m (\<lambda>e. sys_exit 1) fs)) = 1"
    by (simp add: try_except_Exception_def sys_exit_def io_raise_def)
qed

lemma exit_0_iff_completed_bind:
  assumes "emits (\<lambda>e. \<not> completed c e) m" and "fails_with_1 m"
    and "\<And>x. exit_0_iff_completed c (f x)"
  shows "exit_0_iff_completed c (io_bind m f)"
  unfolding exit_0_iff_completed_def
proof
  fix fs
  obtain res fs' evs where s: "m fs = (res, fs', evs)"
    by (cases "m fs") auto
  with assms(1) have q: "\<not> list_ex (completed c) evs"
    by (auto simp: emits_def list_all_iff list_ex_iff dest!: spec [of _ fs])
  show "exit_status (result (io_bind m f fs)) =
      (if list_ex (completed c) (events (io_bind m f fs)) then 0 else 1)"
  proof (cases res)
    case (Inl x)
    with s assms(2) have "exit_status (Inl x) = 1"
      by (auto simp: fails_with_1_def dest!: spec [of _ fs])
    with s Inl q show ?thesis
      by (simp add: events_bind result_bind)
  next
    case (Inr x)
    with s q assms(3) [of x] show ?thesis
      by (simp add: events_bind result_bind exit_0_iff_completed_def)
  qed
qed

lemma exit_0_iff_completed_sys_exit [simp]: "exit_0_iff_completed c (sys_exit 1)"
  by (simp add: exit_0_iff_completed_def sys_exit_def io_raise_def)

lemma exit_0_iff_completed_if:
  "(b \<Longrightarrow> exit_0_iff_completed c x) \<Longrightarrow> (\<not> b \<Longrightarrow> exit_0_iff_completed c y) \<Longrightarrow>
     exit_0_iff_completed c (if b then x else y)"
  by simp

section \<open>The merge step (C1)\<close>

lemma started:
  assumes "cmd \<noteq> []"
  shows "events (io_bind (subprocess_run_check w cmd) g fs) \<noteq> []"
  using assms
  by (cases rule: run_check_cases [where w = w and fs = fs]) (simp_all add: events_bind)

lemma started_docker:
  assumes "input_files \<noteq> []"
    and "mkdir (PROCESSED_DIR proj) fs = Inr fsa" and "mkdir (OUTPUT_DIR proj) fsa = Inr fsb"
  shows "events (process_with_docker w proj input_files fs) \<noteq> []"
proof (cases "1 < length input_files")
  case True
  with assms show ?thesis
    by (simp add: process_with_docker_def io_bind_mkdir io_bind_assoc started)
next
  case False
  with assms(1) obtain f where "input_files = [f]"
    by (cases input_files) auto
  with assms show ?thesis
    by (simp add: process_with_docker_def io_bind_mkdir first_input_def started)
qed

lemma started_local:
  assumes "input_files \<noteq> []"
    and "mkdir (PROCESSED_DIR proj) fs = Inr fsa" and "mkdir (OUTPUT_DIR proj) fsa = Inr fsb"
  shows "events (process_with_local_tools w proj input_files g c fs) \<noteq> []"
proof (cases "1 < length input_files")
  case True
  with assms show ?thesis
    by (simp add: process_with_local_tools_def io_bind_mkdir io_bind_assoc started)
next
  case False
  with assms(1) obtain f where "input_files = [f]"
    by (cases input_files) auto
  with assms show ?thesis
    by (simp add: process_with_local_tools_def io_bind_mkdir first_input_def started)
qed

lemma merge_names_inputs:
  "f \<in> set input_files \<Longrightarrow>
     ''/data/input/'' @ path_name f \<in> set (gdal_merge_docker proj input_files) \<and>
     str_path f \<in> set (gdal_merge_local proj input_files)"
  by (auto simp: gdal_merge_docker_def gdal_merge_local_def)

text \<open>
  Claim C1.  With more than one input file, on the containerised and on the local path,
  the subprocesses a run starts are, in order, an initial part of: the merge of all input
  files (\<open>gdal_merge.py\<close>), the reprojection of \<open>merged.tif\<close>, the tiling, the
  metadata; each is started only after the one before it has exited with 0.  With one
  input file they are an initial part of: the reprojection of that file, the tiling, the
  metadata, none of which is a merge.  Whenever the two working directories can be
  created, the first of these subprocesses is started.
\<close>

theorem merge_step_iff_several_inputs:
  "(1 < length input_files \<longrightarrow>
      follows [gdal_merge_docker proj input_files,
               gdalwarp_docker proj (PROCESSED_DIR proj @ [''merged.tif'']),
               ctb_tile_docker proj, ctb_layer_docker proj]
        (events (process_with_docker w proj input_files fs)) \<and>
      follows [gdal_merge_local proj input_files,
               gdalwarp_local proj (PROCESSED_DIR proj @ [''merged.tif'']),
               ctb_tile_local proj, ctb_layer_local proj]
        (events (process_with_local_tools w proj input_files gdal_available ctb_available fs)) \<and>
      program_of (gdal_merge_docker proj input_files) = ''gdal_merge.py'' \<and>
      program_of (gdal_merge_local proj input_files) = ''gdal_merge.py'' \<and>
      (\<forall>x \<in> set input_files.
         ''/data/input/'' @ path_name x \<in> set (gdal_merge_docker proj input_files) \<and>
         str_path x \<in> set (gdal_merge_local proj input_files))) \<and>
   (input_files = [f] \<longrightarrow>
      follows [gdalwarp_docker proj f, ctb_tile_docker proj, ctb_layer_docker proj]
        (events (process_with_docker w proj input_files fs)) \<and>
      follows [gdalwarp_local proj f, ctb_tile_local proj, ctb_layer_local proj]
        (events (process_with_local_tools w proj input_files gdal_available ctb_available fs)) \<and>
      ''gdal_merge.py'' \<notin> program_of `
         set [gdalwarp_docker proj f, ctb_tile_docker proj, ctb_layer_docker proj,
              gdalwarp_local proj f, ctb_tile_local proj, ctb_layer_local proj]) \<and>
   (input_files \<noteq> [] \<and> mkdir (PROCESSED_DIR proj) fs = Inr fsa \<and>
    mkdir (OUTPUT_DIR proj) fsa = Inr fsb \<longrightarrow>
      events (process_with_docker w proj input_files fs) \<noteq> [] \<and>
      events (process_with_local_tools w proj input_files gdal_available ctb_available fs) \<noteq> [])"
proof (intro conjI impI ballI)
  assume "1 < length input_files"
  then show "follows [gdal_merge_docker proj input_files,
               gdalwarp_docker proj (PROCESSED_DIR proj @ [''merged.tif'']),
               ctb_tile_docker proj, ctb_layer_docker proj]
        (events (process_with_docker w proj input_files fs))"
    using docker_multi [of input_files proj w] by (simp add: chains_def)
next
  assume "1 < length input_files"
  then show "follows [gdal_merge_local proj input_files,
               gdalwarp_local proj (PROCESSED_DIR proj @ [''merged.tif'']),
               ctb_tile_local proj, ctb_layer_local proj]
        (events (process_with_local_tools w proj input_files gdal_available ctb_available fs))"
    using local_multi [of input_files proj w] by (simp add: chains_def)
next
  assume "input_files = [f]"
  then show "follows [gdalwarp_docker proj f, ctb_tile_docker proj, ctb_layer_docker proj]
        (events (process_with_docker w proj input_files fs))"
    using docker_single [of proj f w] by (simp add: chains_def)
next
  assume "input_files = [f]"
  then show "follows [gdalwarp_local proj f, ctb_tile_local proj, ctb_layer_local proj]
        (events (process_with_local_tools w proj input_files gdal_available ctb_available fs))"
    using local_single [of proj f w] by (simp add: chains_def)
next
  assume "input_files \<noteq> [] \<and> mkdir (PROCESSED_DIR proj) fs = Inr fsa \<and>
    mkdir (OUTPUT_DIR proj) fsa = Inr fsb"
  then show "events (process_with_docker w proj input_files fs) \<noteq> []"
    using started_docker [of input_files proj fs fsa fsb w] by simp
next
  assume "input_files \<noteq> [] \<and> mkdir (PROCESSED_DIR proj) fs = Inr fsa \<and>
    mkdir (OUTPUT_DIR proj) fsa = Inr fsb"
  then show "events (process_with_local_tools w proj input_files gdal_available ctb_available fs) \<noteq> []"
    using started_local [of input_files proj fs fsa fsb w] by simp
next
  fix x assume "1 < length input_files" and "x \<in> set input_files"
  then show "''/data/input/'' @ path_name x \<in> set (gdal_merge_docker proj input_files)"
    by (simp only: merge_names_inputs)
next
  fix x assume "1 < length input_files" and "x \<in> set input_files"
  then show "str_path x \<in> set (gdal_merge_local proj input_files)"
    by (simp only: merge_names_inputs)
qed simp_all

theorem merge_step_iff_several_inputs_witness:
  "follows [gdal_merge_docker [''srv''] two_tifs,
            gdalwarp_docker [''srv''] (PROCESSED_DIR [''srv''] @ [''merged.tif'']),
            ctb_tile_docker [''srv''], ctb_layer_docker [''srv'']]
     (events (process_with_docker host_docker [''srv''] two_tifs (Dir []))) \<and>
   events (process_with_docker host_docker [''srv''] two_tifs (Dir [])) \<noteq> [] \<and>
   events (process_with_local_tools host_local [''srv''] two_tifs True True (Dir [])) \<noteq> [] \<and>
   follows [gdalwarp_local [''srv''] [''srv'', ''data'', ''raw'', ''a.tif''],
            ctb_tile_local [''srv''], ctb_layer_local [''srv'']]
     (events (process_with_local_tools host_local [''srv'']
        [[''srv'', ''data'', ''raw'', ''a.tif'']] True True (Dir [])))"
proof -
  have m1: "mkdir (PROCESSED_DIR [''srv'']) (Dir []) =
      Inr (Dir [(''srv'', Dir [(''data'', Dir [(''processed'', Dir [])])])])"
    by (simp add: PROCESSED_DIR_def)
  have m2: "mkdir (OUTPUT_DIR [''srv''])
        (Dir [(''srv'', Dir [(''data'', Dir [(''processed'', Dir [])])])]) =
      Inr (Dir [(''srv'', Dir [(''data'', Dir [(''processed'', Dir [])]),
                               (''terrain-tiles'', Dir [])])])"
    by (simp add: OUTPUT_DIR_def)
  have n: "1 < length two_tifs" "two_tifs \<noteq> []"
    by (simp_all add: two_tifs_def)
  show ?thesis
    using n m1 m2
      merge_step_iff_several_inputs [where input_files = two_tifs and proj = "[''srv'']"
        and w = host_docker and fs = "Dir []"
        and fsa = "Dir [(''srv'', Dir [(''data'', Dir [(''processed'', Dir [])])])]"
        and fsb = "Dir [(''srv'', Dir [(''data'', Dir [(''processed'', Dir [])]),
                               (''terrain-tiles'', Dir [])])]"]
      merge_step_iff_several_inputs [where input_files = two_tifs and proj = "[''srv'']"
        and w = host_local and fs = "Dir []" and gdal_available = True and ctb_available = True
        and fsa = "Dir [(''srv'', Dir [(''data'', Dir [(''processed'', Dir [])])])]"
        and fsb = "Dir [(''srv'', Dir [(''data'', Dir [(''processed'', Dir [])]),
                               (''terrain-tiles'', Dir [])])]"]
      merge_step_iff_several_inputs [where input_files = "[[''srv'', ''data'', ''raw'', ''a.tif'']]"
        and f = "[''srv'', ''data'', ''raw'', ''a.tif'']" and proj = "[''srv'']"
        and w = host_local and fs = "Dir []" and gdal_available = True and ctb_available = True]
    by simp
qed

section \<open>The fallback conversion (C2)\<close>

lemma pipeline_is_not_translate:
  "pdal_pipeline_docker proj laz out \<noteq> pdal_translate_docker laz' out'"
  by (simp add: pdal_pipeline_docker_def pdal_translate_docker_def)

lemma simple_docker_shape:
  "\<exists>x. events (convert_laz_simple_docker w laz out fs) = [Run (pdal_translate_docker laz out) x] \<and>
     (result (convert_laz_simple_docker w laz out fs) = Inr False \<longrightarrow>
        \<not> path_exists (path_parent out @ [''dem.tif''])
            (final_fs (convert_laz_simple_docker w laz out fs)))"
  unfolding convert_laz_simple_docker_def
  by (auto simp: io_bind_run io_bind_exists io_bind_move io_return_def
      split: sum.splits prod.splits)

lemma docker_conversion_shape:
  "events (convert_laz_to_dem_docker w proj laz out fs) = [] \<or>
   events (convert_laz_to_dem_docker w proj laz out fs) =
     [Run (pdal_pipeline_docker proj laz out) None] \<or>
   events (convert_laz_to_dem_docker w proj laz out fs) =
     [Run (pdal_pipeline_docker proj laz out) (Some 0)] \<or>
   (\<exists>rc x. rc \<noteq> 0 \<and>
      events (convert_laz_to_dem_docker w proj laz out fs) =
        [Run (pdal_pipeline_docker proj laz out) (Some rc), Run (pdal_translate_docker laz out) x] \<and>
      (result (convert_laz_to_dem_docker w proj laz out fs) = Inr False \<longrightarrow>
         \<not> path_exists (path_parent out @ [''dem.tif''])
             (final_fs (convert_laz_to_dem_docker w proj laz out fs))))"
proof -
  let ?k = "\<lambda>returncode.
         if returncode \<noteq> 0 then convert_laz_simple_docker w laz out
         else io_bind (io_exists (path_parent out @ [''output.tif''])) (\<lambda>temp_exists.
              io_bind (if temp_exists
                       then io_move (path_parent out @ [''output.tif'']) out
                       else io_return ()) (\<lambda>_. io_exists out))"
  let ?P = "pdal_pipeline_docker proj laz out"
  have "silent (?k 0)"
    by (simp add: silent_bind)
  then have zero: "events (?k 0 fs') = []" for fs'
    by (simp add: silent_def)
  have step: "events (io_bind (subprocess_run w ?P) ?k fs') = [Run ?P None] \<or>
      events (io_bind (subprocess_run w ?P) ?k fs') = [Run ?P (Some 0)] \<or>
      (\<exists>rc x. rc \<noteq> 0 \<and>
         events (io_bind (subprocess_run w ?P) ?k fs') =
           [Run ?P (Some rc), Run (pdal_translate_docker laz out) x] \<and>
         (result (io_bind (subprocess_run w ?P) ?k fs') = Inr False \<longrightarrow>
            \<not> path_exists (path_parent out @ [''dem.tif''])
                (final_fs (io_bind (subprocess_run w ?P) ?k fs'))))" for fs'
  proof (cases "which w fs' (hd ?P)")
    case False
    then show ?thesis by (simp add: io_bind_run)
  next
    case True
    obtain rc fs'' where t: "tool w ?P fs' = (rc, fs'')"
      by (cases "tool w ?P fs'") auto
    show ?thesis
    proof (cases "rc = 0")
      case True
      with \<open>which w fs' (hd ?P)\<close> t zero [of fs''] show ?thesis
        by (auto simp: io_bind_run events_def split: prod.splits)
    next
      case False
      with \<open>which w fs' (hd ?P)\<close> t simple_docker_shape [of w laz out fs''] show ?thesis
        by (auto simp: io_bind_run events_def result_def final_fs_def split: prod.splits)
    qed
  qed
  show ?thesis
    unfolding convert_laz_to_dem_docker_def
    using step
    by (auto simp: io_bind_mkdir io_bind_write split: sum.splits)
qed

lemma local_conversion_shape:
  "events (convert_laz_to_dem_pdal w proj laz out fs) = [] \<or>
   events (convert_laz_to_dem_pdal w proj laz out fs) = [Run (pdal_pipeline_local proj) None] \<or>
   events (convert_laz_to_dem_pdal w proj laz out fs) = [Run (pdal_pipeline_local proj) (Some 0)] \<or>
   (\<exists>rc. rc \<noteq> 0 \<and>
      events (convert_laz_to_dem_pdal w proj laz out fs) = [Run (pdal_pipeline_local proj) (Some rc)] \<and>
      result (convert_laz_to_dem_pdal w proj laz out fs) = Inr False)"
  unfolding convert_laz_to_dem_pdal_def
  by (auto simp: io_bind_mkdir io_bind_write io_bind_run io_return_def io_exists_def
      split: sum.splits prod.splits)

text \<open>
  Claim C2 says that a failed primary conversion is always followed by the fallback.  On
  the local path (\<open>convert_laz_to_dem_pdal\<close>, taken when docker is absent and pdal is
  present) a non-zero exit of \<open>pdal pipeline\<close> is reported as failure at once: the run
  below ends with status 1 after two subprocesses, neither of them \<open>pdal translate\<close>.
\<close>

theorem local_conversion_fails_without_fallback:
  "events (main_laz (host [''pdal''] pipeline_fails) [''srv'']
      [[''srv'', ''data'', ''raw'', ''dsm.laz'']] raw_one_laz) =
     [Run [''pdal'', ''info'', ''--summary'', ''/srv/data/raw/dsm.laz''] (Some 0),
      Run [''pdal'', ''pipeline'', ''/srv/data/processed/pipeline.json''] (Some 1)] \<and>
   exit_status (result (main_laz (host [''pdal''] pipeline_fails) [''srv'']
      [[''srv'', ''data'', ''raw'', ''dsm.laz'']] raw_one_laz)) = 1"
  by (simp add: run_defs)

text \<open>
  Claim C2, amended.  On the containerised path, when the primary conversion
  (\<open>pdal pipeline\<close> in the container) exits with a non-zero code, the fallback
  (\<open>pdal translate\<close> in the container) is the next and last subprocess of the
  conversion step, and the step reports failure only if the fallback has left no
  \<open>dem.tif\<close>.  On the local path, when \<open>pdal pipeline\<close> exits with a non-zero code it is
  the only subprocess of the step, and the step reports failure.
\<close>

theorem fallback_only_in_container:
  "(rc \<noteq> 0 \<and>
    Run (pdal_pipeline_docker proj laz out) (Some rc)
      \<in> set (events (convert_laz_to_dem_docker w proj laz out fs)) \<longrightarrow>
      (\<exists>x. events (convert_laz_to_dem_docker w proj laz out fs) =
         [Run (pdal_pipeline_docker proj laz out) (Some rc),
          Run (pdal_translate_docker laz out) x]) \<and>
      (result (convert_laz_to_dem_docker w proj laz out fs) = Inr False \<longrightarrow>
         \<not> path_exists (path_parent out @ [''dem.tif''])
             (final_fs (convert_laz_to_dem_docker w proj laz out fs)))) \<and>
   (rc \<noteq> 0 \<and>
    Run (pdal_pipeline_local proj) (Some rc)
      \<in> set (events (convert_laz_to_dem_pdal w proj laz out fs)) \<longrightarrow>
      events (convert_laz_to_dem_pdal w proj laz out fs) =
        [Run (pdal_pipeline_local proj) (Some rc)] \<and>
      result (convert_laz_to_dem_pdal w proj laz out fs) = Inr False)"
proof -
  have "\<exists>x. events (convert_laz_to_dem_docker w proj laz out fs) =
         [Run (pdal_pipeline_docker proj laz out) (Some rc),
          Run (pdal_translate_docker laz out) x]"
    and "result (convert_laz_to_dem_docker w proj laz out fs) = Inr False \<longrightarrow>
         \<not> path_exists (path_parent out @ [''dem.tif''])
             (final_fs (convert_laz_to_dem_docker w proj laz out fs))"
    if "rc \<noteq> 0" and "Run (pdal_pipeline_docker proj laz out) (Some rc)
      \<in> set (events (convert_laz_to_dem_docker w proj laz out fs))"
    using that docker_conversion_shape [of w proj laz out fs]
    by (auto simp: pipeline_is_not_translate)
  moreover have "events (convert_laz_to_dem_pdal w proj laz out fs) =
        [Run (pdal_pipeline_local proj) (Some rc)]"
    and "result (convert_laz_to_dem_pdal w proj laz out fs) = Inr False"
    if "rc \<noteq> 0" and "Run (pdal_pipeline_local proj) (Some rc)
      \<in> set (events (convert_laz_to_dem_pdal w proj laz out fs))"
    using that local_conversion_shape [of w proj laz out fs]
    by auto
  ultimately show ?thesis
    by blast
qed

theorem fallback_only_in_container_witness:
  "Run (pdal_pipeline_docker [''srv''] [''srv'', ''data'', ''raw'', ''dsm.laz'']
          [''srv'', ''data'', ''processed'', ''dem.tif'']) (Some 1)
     \<in> set (events (convert_laz_to_dem_docker (host [''docker''] pipeline_fails) [''srv'']
          [''srv'', ''data'', ''raw'', ''dsm.laz'']
          [''srv'', ''data'', ''processed'', ''dem.tif''] raw_one_laz)) \<and>
   length (events (convert_laz_to_dem_docker (host [''docker''] pipeline_fails) [''srv'']
          [''srv'', ''data'', ''raw'', ''dsm.laz'']
          [''srv'', ''data'', ''processed'', ''dem.tif''] raw_one_laz)) = 2 \<and>
   Run (pdal_pipeline_local [''srv'']) (Some 1)
     \<in> set (events (convert_laz_to_dem_pdal (host [''pdal''] pipeline_fails) [''srv'']
          [''srv'', ''data'', ''raw'', ''dsm.laz'']
          [''srv'', ''data'', ''processed'', ''dem.tif''] raw_one_laz)) \<and>
   result (convert_laz_to_dem_pdal (host [''pdal''] pipeline_fails) [''srv'']
          [''srv'', ''data'', ''raw'', ''dsm.laz'']
          [''srv'', ''data'', ''processed'', ''dem.tif''] raw_one_laz) = Inr False"
proof -
  have a: "Run (pdal_pipeline_docker [''srv''] [''srv'', ''data'', ''raw'', ''dsm.laz'']
          [''srv'', ''data'', ''processed'', ''dem.tif'']) (Some 1)
     \<in> set (events (convert_laz_to_dem_docker (host [''docker''] pipeline_fails) [''srv'']
          [''srv'', ''data'', ''raw'', ''dsm.laz'']
          [''srv'', ''data'', ''processed'', ''dem.tif''] raw_one_laz))"
    by (simp add: run_defs)
  have b: "Run (pdal_pipeline_local [''srv'']) (Some 1)
     \<in> set (events (convert_laz_to_dem_pdal (host [''pdal''] pipeline_fails) [''srv'']
          [''srv'', ''data'', ''raw'', ''dsm.laz'']
          [''srv'', ''data'', ''processed'', ''dem.tif''] raw_one_laz))"
    by (simp add: run_defs)
  have c: "(1::int) \<noteq> 0"
    by simp
  show ?thesis
    using a b c
      fallback_only_in_container [of 1 "[''srv'']" "[''srv'', ''data'', ''raw'', ''dsm.laz'']"
        "[''srv'', ''data'', ''processed'', ''dem.tif'']" "host [''docker''] pipeline_fails"
        raw_one_laz]
      fallback_only_in_container [of 1 "[''srv'']" "[''srv'', ''data'', ''raw'', ''dsm.laz'']"
        "[''srv'', ''data'', ''processed'', ''dem.tif'']" "host [''pdal''] pipeline_fails"
        raw_one_laz]
    by force
qed

section \<open>The output verifier (C4)\<close>

lemma verify_output_found:
  assumes "path_exists (OUTPUT_DIR proj @ [''layer.json'']) fs"
  shows "verify_output proj fs =
     (Inr True, fs,
      [Iterdir (OUTPUT_DIR proj), Rglob (OUTPUT_DIR proj) ''*.terrain'',
       Rglob (OUTPUT_DIR proj) ''*'',
       Report [zoom_level_count proj fs, tile_count proj fs, total_size proj fs]])"
proof -
  from assms obtain es where es: "lookup (OUTPUT_DIR proj) fs = Some (Dir es)"
    by (rule exists_child_parent_dir)
  with assms show ?thesis
    by (simp add: verify_output_def io_bind_exists io_bind_iterdir io_bind_rglob io_bind_report
        io_return_def zoom_level_count_def tile_count_def total_size_def Let_def comp_def)
qed

lemma verify_output_missing:
  "\<not> path_exists (OUTPUT_DIR proj @ [''layer.json'']) fs \<Longrightarrow>
     verify_output proj fs = (Inr False, fs, [])"
  by (simp add: verify_output_def io_bind_exists io_return_def)

text \<open>
  Claim C4.  For every state of the file system \<open>verify_output\<close> returns \<open>True\<close> if
  \<open>layer.json\<close> exists in the output directory and \<open>False\<close> if not, and leaves the
  file system as it was.  The number of zoom-level directories, the number of tile files
  and the total size are computed only when \<open>layer.json\<close> exists, are printed, and have
  no part in the returned value: with no tile file at all the result is still \<open>True\<close>.
\<close>

theorem verify_output_iff_layer_json:
  "result (verify_output proj fs) = Inr (path_exists (OUTPUT_DIR proj @ [''layer.json'']) fs) \<and>
   final_fs (verify_output proj fs) = fs \<and>
   events (verify_output proj fs) =
     (if path_exists (OUTPUT_DIR proj @ [''layer.json'']) fs
      then [Iterdir (OUTPUT_DIR proj), Rglob (OUTPUT_DIR proj) ''*.terrain'',
            Rglob (OUTPUT_DIR proj) ''*'',
            Report [zoom_level_count proj fs, tile_count proj fs, total_size proj fs]]
      else []) \<and>
   (path_exists (OUTPUT_DIR proj @ [''layer.json'']) fs \<and> tile_count proj fs = 0 \<longrightarrow>
      result (verify_output proj fs) = Inr True)"
  by (cases "path_exists (OUTPUT_DIR proj @ [''layer.json'']) fs")
     (simp_all add: verify_output_found verify_output_missing)

theorem verify_output_iff_layer_json_witness:
  "path_exists (OUTPUT_DIR [''srv''] @ [''layer.json'']) tiles_layer_only \<and>
   tile_count [''srv''] tiles_layer_only = 0 \<and>
   result (verify_output [''srv''] tiles_layer_only) = Inr True \<and>
   result (verify_output [''srv''] (Dir [])) = Inr False"
proof -
  have a: "path_exists (OUTPUT_DIR [''srv''] @ [''layer.json'']) tiles_layer_only"
    by (simp add: path_exists_def OUTPUT_DIR_def tiles_layer_only_def)
  have b: "tile_count [''srv''] tiles_layer_only = 0"
    by (simp add: tile_count_def rglob_def OUTPUT_DIR_def tiles_layer_only_def glob_match_def
        endswith_def path_name_def)
  have c: "\<not> path_exists (OUTPUT_DIR [''srv''] @ [''layer.json'']) (Dir [])"
    by (simp add: path_exists_def OUTPUT_DIR_def)
  show ?thesis
    using a b c verify_output_iff_layer_json [of "[''srv'']" tiles_layer_only]
      verify_output_iff_layer_json [of "[''srv'']" "Dir []"]
    by simp
qed

section \<open>Missing tools (C5)\<close>

lemma select_laz_file_shape:
  "filter is_run (events (select_laz_file proj argv fs)) = [] \<and>
   (\<forall>e. result (select_laz_file proj argv fs) = Inl e \<longrightarrow> exit_status (Inl e) = 1)"
proof (cases argv)
  case Nil
  then show ?thesis
    by (auto simp: select_laz_file_def io_bind_mkdir io_bind_glob sys_exit_def io_raise_def
        io_return_def split: sum.splits list.splits dest: mkdir_error)
next
  case (Cons a rest)
  then show ?thesis
    by (auto simp: select_laz_file_def io_bind_exists sys_exit_def io_raise_def io_return_def)
qed

lemma run_laz_pipeline_gate:
  "\<not> which w fs ''docker'' \<Longrightarrow> \<not> which w fs ''pdal'' \<Longrightarrow>
     run_laz_pipeline w proj laz fs = (Inl (SystemExit 1), fs, [])"
  by (simp add: run_laz_pipeline_def check_dependencies_laz_def io_bind_which io_bind_assoc
      sys_exit_def io_raise_def)

text \<open>
  Claim C5 says that a run aborts before any conversion subprocess when the tools found
  at startup do not suffice for every stage.  The point-cloud script checks only that
  docker or pdal is present; whether \<open>gdalwarp\<close> is there is looked at by the
  reprojection stage itself.  On a host with pdal and nothing else the conversion
  subprocess runs, and the run fails afterwards.
\<close>

theorem laz_pipeline_fails_after_conversion_ran:
  "\<not> which (host [''pdal''] exits_zero) raw_one_laz ''docker'' \<and>
   \<not> which (host [''pdal''] exits_zero) raw_one_laz ''gdalwarp'' \<and>
   events (main_laz (host [''pdal''] exits_zero) [''srv'']
      [[''srv'', ''data'', ''raw'', ''dsm.laz'']] raw_one_laz) =
     [Run [''pdal'', ''info'', ''--summary'', ''/srv/data/raw/dsm.laz''] (Some 0),
      Run [''pdal'', ''pipeline'', ''/srv/data/processed/pipeline.json''] (Some 0)] \<and>
   exit_status (result (main_laz (host [''pdal''] exits_zero) [''srv'']
      [[''srv'', ''data'', ''raw'', ''dsm.laz'']] raw_one_laz)) = 1"
  by (simp add: run_defs)

text \<open>
  Claim C5, amended.  The raster script exits with status 1, having started no subprocess
  and changed nothing, when docker is not found and \<open>gdalwarp\<close> or \<open>ctb-tile\<close> is not
  found.  The point-cloud script, which probes after it has chosen its input file, exits
  with status 1 and has started no subprocess when neither docker nor pdal is found.
\<close>

theorem missing_tools_abort_before_any_subprocess:
  "(\<not> which w fs ''docker'' \<and> \<not> (which w fs ''gdalwarp'' \<and> which w fs ''ctb-tile'') \<longrightarrow>
      main_terrain w proj argv fs = (Inl (SystemExit 1), fs, [])) \<and>
   (\<not> which w (final_fs (select_laz_file proj argv fs)) ''docker'' \<and>
    \<not> which w (final_fs (select_laz_file proj argv fs)) ''pdal'' \<longrightarrow>
      exit_status (result (main_laz w proj argv fs)) = 1 \<and>
      filter is_run (events (main_laz w proj argv fs)) = [])"
proof (intro conjI impI)
  assume "\<not> which w fs ''docker'' \<and> \<not> (which w fs ''gdalwarp'' \<and> which w fs ''ctb-tile'')"
  then show "main_terrain w proj argv fs = (Inl (SystemExit 1), fs, [])"
    by (auto simp: main_terrain_def check_dependencies_def io_bind_which io_bind_assoc
        sys_exit_def io_raise_def)
next
  assume a: "\<not> which w (final_fs (select_laz_file proj argv fs)) ''docker'' \<and>
    \<not> which w (final_fs (select_laz_file proj argv fs)) ''pdal''"
  obtain r fs' evs where s: "select_laz_file proj argv fs = (r, fs', evs)"
    by (cases "select_laz_file proj argv fs") auto
  with a have g: "run_laz_pipeline w proj laz fs' = (Inl (SystemExit 1), fs', [])" for laz
    by (simp add: run_laz_pipeline_gate)
  from s select_laz_file_shape [of proj argv fs]
  have e: "filter is_run evs = []" and x: "\<And>e. r = Inl e \<Longrightarrow> exit_status (Inl e) = 1"
    by simp_all
  show "exit_status (result (main_laz w proj argv fs)) = 1"
    using s g x by (cases r) (simp_all add: main_laz_def io_bind_def)
  show "filter is_run (events (main_laz w proj argv fs)) = []"
    using s g e by (cases r) (simp_all add: main_laz_def io_bind_def)
qed

theorem missing_tools_abort_before_any_subprocess_witness:
  "\<not> which (host [''gdalwarp''] exits_zero) raw_one_tif ''docker'' \<and>
   \<not> which (host [''gdalwarp''] exits_zero) raw_one_tif ''ctb-tile'' \<and>
   main_terrain (host [''gdalwarp''] exits_zero) [''srv''] [] raw_one_tif =
     (Inl (SystemExit 1), raw_one_tif, []) \<and>
   exit_status (result (main_laz (host [''gdalwarp''] exits_zero) [''srv''] [] raw_one_laz)) = 1 \<and>
   filter is_run (events (main_laz (host [''gdalwarp''] exits_zero) [''srv''] [] raw_one_laz)) = []"
proof -
  have a: "\<not> which (host [''gdalwarp''] exits_zero) fs ''docker''"
    "\<not> which (host [''gdalwarp''] exits_zero) fs ''ctb-tile''"
    "\<not> which (host [''gdalwarp''] exits_zero) fs ''pdal''" for fs
    by (simp_all add: host_def)
  show ?thesis
    using a missing_tools_abort_before_any_subprocess [of "host [''gdalwarp''] exits_zero"
        raw_one_tif "[''srv'']" "[]"]
      missing_tools_abort_before_any_subprocess [of "host [''gdalwarp''] exits_zero"
        raw_one_laz "[''srv'']" "[]"]
    by simp
qed

section \<open>No input (C6)\<close>

lemma find_input_files_none:
  assumes "glob (RAW_DATA_DIR proj) ''*.tif'' fs = []"
    and "glob (RAW_DATA_DIR proj) ''*.tiff'' fs = []"
  shows "find_input_files proj fs = (case mkdir (RAW_DATA_DIR proj) fs of
      Inl e \<Rightarrow> (Inl e, fs, [])
    | Inr fs' \<Rightarrow> (Inr [], fs',
        [Glob (RAW_DATA_DIR proj) ''*.tif'', Glob (RAW_DATA_DIR proj) ''*.tiff'']))"
  using assms
  by (auto simp: find_input_files_def io_bind_mkdir io_bind_glob mkdir_glob io_return_def
      split: sum.splits)

lemma select_laz_file_none:
  assumes "glob (RAW_DATA_DIR proj) ''*.laz'' fs = []"
    and "glob (RAW_DATA_DIR proj) ''*.las'' fs = []"
  shows "select_laz_file proj [] fs = (case mkdir (RAW_DATA_DIR proj) fs of
      Inl e \<Rightarrow> (Inl e, fs, [])
    | Inr fs' \<Rightarrow> (Inl (SystemExit 1), fs',
        [Glob (RAW_DATA_DIR proj) ''*.laz'', Glob (RAW_DATA_DIR proj) ''*.las'']))"
  using assms
  by (auto simp: select_laz_file_def io_bind_mkdir io_bind_glob mkdir_glob sys_exit_def
      io_raise_def split: sum.splits)

lemma main_terrain_none:
  assumes "glob (RAW_DATA_DIR proj) ''*.tif'' fs = []"
    and "glob (RAW_DATA_DIR proj) ''*.tiff'' fs = []"
  shows "main_terrain w proj [] fs =
     (if \<not> which w fs ''docker'' \<and> \<not> (which w fs ''gdalwarp'' \<and> which w fs ''ctb-tile'')
      then (Inl (SystemExit 1), fs, [])
      else (case mkdir (RAW_DATA_DIR proj) fs of
         Inl e \<Rightarrow> (Inl e, fs, [])
       | Inr fs' \<Rightarrow> (Inl (SystemExit 1), fs',
           [Glob (RAW_DATA_DIR proj) ''*.tif'', Glob (RAW_DATA_DIR proj) ''*.tiff''])))"
  using find_input_files_none [OF assms]
  by (auto simp: main_terrain_def check_dependencies_def io_bind_which io_bind_assoc
      io_bind_def [of "find_input_files proj"] sys_exit_def io_raise_def split: sum.splits)

lemma main_laz_none:
  assumes "glob (RAW_DATA_DIR proj) ''*.laz'' fs = []"
    and "glob (RAW_DATA_DIR proj) ''*.las'' fs = []"
  shows "main_laz w proj [] fs = (case mkdir (RAW_DATA_DIR proj) fs of
      Inl e \<Rightarrow> (Inl e, fs, [])
    | Inr fs' \<Rightarrow> (Inl (SystemExit 1), fs',
        [Glob (RAW_DATA_DIR proj) ''*.laz'', Glob (RAW_DATA_DIR proj) ''*.las'']))"
  using select_laz_file_none [OF assms]
  by (auto simp: main_laz_def io_bind_def split: sum.splits)

text \<open>
  Claim C6.  Started with no argument on a raw-data directory that has no entry matching
  the script's patterns (\<open>*.tif\<close> and \<open>*.tiff\<close>, or \<open>*.laz\<close> and \<open>*.las\<close>), each
  script exits with status 1, starts no subprocess, and leaves the processed directory
  and the tile output directory, with everything below them, as they were (or absent, if
  they were absent).
\<close>

theorem no_raw_input_exits_with_failure:
  "(glob (RAW_DATA_DIR proj) ''*.tif'' fs = [] \<and> glob (RAW_DATA_DIR proj) ''*.tiff'' fs = [] \<longrightarrow>
      exit_status (result (main_terrain w proj [] fs)) = 1 \<and>
      filter is_run (events (main_terrain w proj [] fs)) = [] \<and>
      lookup (PROCESSED_DIR proj) (final_fs (main_terrain w proj [] fs)) =
        lookup (PROCESSED_DIR proj) fs \<and>
      lookup (OUTPUT_DIR proj) (final_fs (main_terrain w proj [] fs)) =
        lookup (OUTPUT_DIR proj) fs) \<and>
   (glob (RAW_DATA_DIR proj) ''*.laz'' fs = [] \<and> glob (RAW_DATA_DIR proj) ''*.las'' fs = [] \<longrightarrow>
      exit_status (result (main_laz w proj [] fs)) = 1 \<and>
      filter is_run (events (main_laz w proj [] fs)) = [] \<and>
      lookup (PROCESSED_DIR proj) (final_fs (main_laz w proj [] fs)) =
        lookup (PROCESSED_DIR proj) fs \<and>
      lookup (OUTPUT_DIR proj) (final_fs (main_laz w proj [] fs)) =
        lookup (OUTPUT_DIR proj) fs)"
proof (intro conjI impI)
  assume g: "glob (RAW_DATA_DIR proj) ''*.tif'' fs = [] \<and> glob (RAW_DATA_DIR proj) ''*.tiff'' fs = []"
  then have m: "main_terrain w proj [] fs =
     (if \<not> which w fs ''docker'' \<and> \<not> (which w fs ''gdalwarp'' \<and> which w fs ''ctb-tile'')
      then (Inl (SystemExit 1), fs, [])
      else (case mkdir (RAW_DATA_DIR proj) fs of
         Inl e \<Rightarrow> (Inl e, fs, [])
       | Inr fs' \<Rightarrow> (Inl (SystemExit 1), fs',
           [Glob (RAW_DATA_DIR proj) ''*.tif'', Glob (RAW_DATA_DIR proj) ''*.tiff''])))"
    by (simp add: main_terrain_none)
  show "exit_status (result (main_terrain w proj [] fs)) = 1"
    unfolding m by (auto split: sum.splits dest: mkdir_error)
  show "filter is_run (events (main_terrain w proj [] fs)) = []"
    unfolding m by (auto split: sum.splits)
  show "lookup (PROCESSED_DIR proj) (final_fs (main_terrain w proj [] fs)) =
        lookup (PROCESSED_DIR proj) fs"
    unfolding m by (auto split: sum.splits simp: mkdir_raw_keeps_others)
  show "lookup (OUTPUT_DIR proj) (final_fs (main_terrain w proj [] fs)) =
        lookup (OUTPUT_DIR proj) fs"
    unfolding m by (auto split: sum.splits simp: mkdir_raw_keeps_others)
next
  assume g: "glob (RAW_DATA_DIR proj) ''*.laz'' fs = [] \<and> glob (RAW_DATA_DIR proj) ''*.las'' fs = []"
  then have m: "main_laz w proj [] fs = (case mkdir (RAW_DATA_DIR proj) fs of
      Inl e \<Rightarrow> (Inl e, fs, [])
    | Inr fs' \<Rightarrow> (Inl (SystemExit 1), fs',
        [Glob (RAW_DATA_DIR proj) ''*.laz'', Glob (RAW_DATA_DIR proj) ''*.las'']))"
    by (simp add: main_laz_none)
  show "exit_status (result (main_laz w proj [] fs)) = 1"
    unfolding m by (auto split: sum.splits dest: mkdir_error)
  show "filter is_run (events (main_laz w proj [] fs)) = []"
    unfolding m by (auto split: sum.splits)
  show "lookup (PROCESSED_DIR proj) (final_fs (main_laz w proj [] fs)) =
        lookup (PROCESSED_DIR proj) fs"
    unfolding m by (auto split: sum.splits simp: mkdir_raw_keeps_others)
  show "lookup (OUTPUT_DIR proj) (final_fs (main_laz w proj [] fs)) =
        lookup (OUTPUT_DIR proj) fs"
    unfolding m by (auto split: sum.splits simp: mkdir_raw_keeps_others)
qed

theorem no_raw_input_exits_with_failure_witness:
  "glob (RAW_DATA_DIR [''srv'']) ''*.tif'' processed_only = [] \<and>
   glob (RAW_DATA_DIR [''srv'']) ''*.tiff'' processed_only = [] \<and>
   glob (RAW_DATA_DIR [''srv'']) ''*.laz'' processed_only = [] \<and>
   glob (RAW_DATA_DIR [''srv'']) ''*.las'' processed_only = [] \<and>
   exit_status (result (main_terrain host_docker [''srv''] [] processed_only)) = 1 \<and>
   lookup (PROCESSED_DIR [''srv'']) (final_fs (main_terrain host_docker [''srv''] [] processed_only)) =
     Some (Dir [(''wgs84.tif'', File 4096)]) \<and>
   exit_status (result (main_laz host_docker [''srv''] [] processed_only)) = 1 \<and>
   lookup (OUTPUT_DIR [''srv'']) (final_fs (main_laz host_docker [''srv''] [] processed_only)) =
     Some (Dir [(''layer.json'', File 120)])"
proof -
  have g: "glob (RAW_DATA_DIR [''srv'']) ''*.tif'' processed_only = []"
    "glob (RAW_DATA_DIR [''srv'']) ''*.tiff'' processed_only = []"
    "glob (RAW_DATA_DIR [''srv'']) ''*.laz'' processed_only = []"
    "glob (RAW_DATA_DIR [''srv'']) ''*.las'' processed_only = []"
    by (simp_all add: glob_def RAW_DATA_DIR_def processed_only_def)
  have l: "lookup (PROCESSED_DIR [''srv'']) processed_only = Some (Dir [(''wgs84.tif'', File 4096)])"
    "lookup (OUTPUT_DIR [''srv'']) processed_only = Some (Dir [(''layer.json'', File 120)])"
    by (simp_all add: PROCESSED_DIR_def OUTPUT_DIR_def processed_only_def)
  show ?thesis
    using g l no_raw_input_exits_with_failure [of "[''srv'']" processed_only host_docker]
    by simp
qed

section \<open>The headers of the tile server (C7)\<close>

text \<open>
  Every response of the handler is finished by its \<open>end_headers\<close>, which writes what
  the base class has buffered for the response, then the three CORS headers, then, if
  and only if the request target \<open>self.path\<close> ends in \<open>.terrain\<close>,
  \<open>Content-Encoding: gzip\<close> and \<open>Content-Type: application/octet-stream\<close>, then the
  blank line.  \<open>guess_type\<close>, which the base class calls on the name of the file, gives
  the same media type for a tile file.
\<close>

lemma end_headers_keyed_on_target:
  "written h (end_headers h) =
     headers_buffer h @ cors_headers @
     (if endswith (path h) ''.terrain'' then gzip_headers else []) @ [BlankLine]"
  "endswith (path h) ''.terrain'' \<Longrightarrow>
     Header ''Content-Encoding'' ''gzip'' \<in> set (written h (end_headers h)) \<and>
     Header ''Content-Type'' ''application/octet-stream'' \<in> set (written h (end_headers h))"
  "endswith p ''.terrain'' \<Longrightarrow> guess_type super_guess_type p = ''application/octet-stream''"
  "\<not> endswith (path h) ''.terrain'' \<Longrightarrow> \<not> has_header ''Content-Encoding'' (headers_buffer h) \<Longrightarrow>
     \<not> has_header ''Content-Encoding'' (written h (end_headers h))"
  by (simp_all add: written_def wfile_end_headers guess_type_def gzip_headers_def)

lemma send_head_fresh:
  assumes "headers_buffer h = []" and "wfile h = []"
  shows "wfile (send_head super_guess_type file content_length last_modified h) =
     [StatusLine 200, Header ''Server'' (version_string h), Header ''Date'' (date_time_string h),
      Header ''Content-type'' (guess_type super_guess_type file),
      Header ''Content-Length'' content_length, Header ''Last-Modified'' last_modified]
     @ cors_headers @ (if endswith (path h) ''.terrain'' then gzip_headers else [])
     @ [BlankLine]"
  using assms
  by (simp add: send_head_def Let_def wfile_end_headers send_response_def send_header_def)

lemma is_header_content_encoding [simp]:
  "\<not> is_header ''Content-Encoding'' (Header ''Content-type'' v)"
  "\<not> is_header ''Content-Encoding'' (Header ''Content-Length'' v)"
  "\<not> is_header ''Content-Encoding'' (Header ''Last-Modified'' v)"
  by (simp_all add: ascii_lower_def)

text \<open>
  So whether a file is declared gzip-encoded is decided on the request target, with its
  query string, and not on the path of the request, which names the file.
\<close>

lemma send_head_content_encoding:
  assumes "headers_buffer h = []" and "wfile h = []"
  shows "has_header ''Content-Encoding''
      (wfile (send_head super_guess_type file content_length last_modified h))
    \<longleftrightarrow> endswith (path h) ''.terrain''"
  using assms by (simp add: send_head_fresh)

text \<open>
  Claim C7 says that a response to a request whose path ends in \<open>.terrain\<close> carries
  \<open>Content-Encoding: gzip\<close> and \<open>Content-Type: application/octet-stream\<close>, and that a
  response to any other path carries no \<open>Content-Encoding\<close>.  The comment in
  \<open>end_headers\<close> says the same of the files: the header is set for terrain files,
  because they are gzipped.  A tile requested with a query string, as in
  \<open>GET /0/0/0.terrain?v=1.0.0\<close>, is found and served by the base class, with the media
  type of a tile, but the target does not end in \<open>.terrain\<close> and the response has no
  \<open>Content-Encoding\<close>.  In the other direction, \<open>GET /index.html?f=a.terrain\<close> serves
  \<open>index.html\<close> and declares it gzip-encoded.
\<close>

theorem terrain_tile_with_query_string_has_no_content_encoding:
  "endswith (url_path ''/0/0/0.terrain?v=1.0.0'') ''.terrain'' \<and>
   wfile (send_head (\<lambda>p. ''text/html'') (''/srv'' @ url_path ''/0/0/0.terrain?v=1.0.0'')
            ''2048'' ''Wed, 31 Dec 2025 00:00:00 GMT'' (get_request ''/0/0/0.terrain?v=1.0.0'')) =
     [StatusLine 200, Header ''Server'' ''SimpleHTTP/0.6'',
      Header ''Date'' ''Thu, 01 Jan 2026 00:00:00 GMT'',
      Header ''Content-type'' ''application/octet-stream'',
      Header ''Content-Length'' ''2048'',
      Header ''Last-Modified'' ''Wed, 31 Dec 2025 00:00:00 GMT'',
      Header ''Access-Control-Allow-Origin'' ''*'',
      Header ''Access-Control-Allow-Methods'' ''GET, OPTIONS'',
      Header ''Access-Control-Allow-Headers'' ''*'',
      BlankLine] \<and>
   \<not> has_header ''Content-Encoding''
       (wfile (send_head (\<lambda>p. ''text/html'') (''/srv'' @ url_path ''/0/0/0.terrain?v=1.0.0'')
            ''2048'' ''Wed, 31 Dec 2025 00:00:00 GMT'' (get_request ''/0/0/0.terrain?v=1.0.0''))) \<and>
   \<not> endswith (url_path ''/index.html?f=a.terrain'') ''.terrain'' \<and>
   wfile (send_head (\<lambda>p. ''text/html'') (''/srv'' @ url_path ''/index.html?f=a.terrain'')
            ''512'' ''Wed, 31 Dec 2025 00:00:00 GMT'' (get_request ''/index.html?f=a.terrain'')) =
     [StatusLine 200, Header ''Server'' ''SimpleHTTP/0.6'',
      Header ''Date'' ''Thu, 01 Jan 2026 00:00:00 GMT'',
      Header ''Content-type'' ''text/html'',
      Header ''Content-Length'' ''512'',
      Header ''Last-Modified'' ''Wed, 31 Dec 2025 00:00:00 GMT'',
      Header ''Access-Control-Allow-Origin'' ''*'',
      Header ''Access-Control-Allow-Methods'' ''GET, OPTIONS'',
      Header ''Access-Control-Allow-Headers'' ''*'',
      Header ''Content-Encoding'' ''gzip'',
      Header ''Content-Type'' ''application/octet-stream'',
      BlankLine] \<and>
   has_header ''Content-Encoding''
     (wfile (send_head (\<lambda>p. ''text/html'') (''/srv'' @ url_path ''/index.html?f=a.terrain'')
            ''512'' ''Wed, 31 Dec 2025 00:00:00 GMT'' (get_request ''/index.html?f=a.terrain'')))"
  by (simp add: send_head_fresh get_request_def url_path_def endswith_def guess_type_def
      cors_headers_def gzip_headers_def)

section \<open>Preflight requests (C8)\<close>

lemma do_OPTIONS_fresh:
  assumes "headers_buffer h = []" and "wfile h = []"
  shows "wfile (do_OPTIONS h) =
     [StatusLine 200, Header ''Server'' (version_string h), Header ''Date'' (date_time_string h)]
     @ cors_headers @ (if endswith (path h) ''.terrain'' then gzip_headers else [])
     @ [BlankLine]"
  using assms by (simp add: do_OPTIONS_def wfile_end_headers send_response_def)

text \<open>
  Claim C8 says that the response to an \<open>OPTIONS\<close> request never has a
  \<open>Content-Encoding\<close> header.  \<open>do_OPTIONS\<close> finishes its response with the same
  \<open>end_headers\<close> as every other method, so for a path ending in \<open>.terrain\<close> the header
  is there.
\<close>

theorem options_on_terrain_path_has_content_encoding:
  "wfile (do_OPTIONS (options_request ''/tiles/3/1/2.terrain'')) =
     [StatusLine 200, Header ''Server'' ''SimpleHTTP/0.6'',
      Header ''Date'' ''Thu, 01 Jan 2026 00:00:00 GMT'',
      Header ''Access-Control-Allow-Origin'' ''*'',
      Header ''Access-Control-Allow-Methods'' ''GET, OPTIONS'',
      Header ''Access-Control-Allow-Headers'' ''*'',
      Header ''Content-Encoding'' ''gzip'',
      Header ''Content-Type'' ''application/octet-stream'',
      BlankLine] \<and>
   has_header ''Content-Encoding'' (wfile (do_OPTIONS (options_request ''/tiles/3/1/2.terrain'')))"
  by (simp add: do_OPTIONS_fresh options_request_def endswith_def cors_headers_def
      gzip_headers_def has_header_def)

text \<open>
  Claim C8, amended.  For a request that starts with nothing buffered and nothing
  written, \<open>do_OPTIONS\<close> writes the status line 200, the \<open>Server\<close> and \<open>Date\<close>
  headers, the three CORS headers and the blank line, and no body; the response has a
  \<open>Content-Encoding\<close> header exactly when the path ends in \<open>.terrain\<close>.
\<close>

theorem options_response:
  "headers_buffer h = [] \<and> wfile h = [] \<and> body h = [] \<longrightarrow>
     wfile (do_OPTIONS h) =
       [StatusLine 200, Header ''Server'' (version_string h),
        Header ''Date'' (date_time_string h)]
       @ cors_headers @ (if endswith (path h) ''.terrain'' then gzip_headers else [])
       @ [BlankLine] \<and>
     body (do_OPTIONS h) = [] \<and>
     (has_header ''Content-Encoding'' (wfile (do_OPTIONS h)) \<longleftrightarrow> endswith (path h) ''.terrain'')"
proof (intro impI, elim conjE)
  assume h: "headers_buffer h = []" "wfile h = []" "body h = []"
  have "body (do_OPTIONS h) = []"
    using h by (simp add: do_OPTIONS_def end_headers_other_fields send_response_def)
  moreover have "has_header ''Content-Encoding'' (wfile (do_OPTIONS h)) \<longleftrightarrow>
      endswith (path h) ''.terrain''"
    using h by (simp add: do_OPTIONS_fresh)
  ultimately show "wfile (do_OPTIONS h) =
       [StatusLine 200, Header ''Server'' (version_string h),
        Header ''Date'' (date_time_string h)]
       @ cors_headers @ (if endswith (path h) ''.terrain'' then gzip_headers else [])
       @ [BlankLine] \<and>
     body (do_OPTIONS h) = [] \<and>
     (has_header ''Content-Encoding'' (wfile (do_OPTIONS h)) \<longleftrightarrow> endswith (path h) ''.terrain'')"
    using h by (simp add: do_OPTIONS_fresh)
qed

theorem options_response_witness:
  "headers_buffer (options_request ''/index.html'') = [] \<and>
   wfile (options_request ''/index.html'') = [] \<and>
   body (options_request ''/index.html'') = [] \<and>
   body (do_OPTIONS (options_request ''/index.html'')) = [] \<and>
   \<not> has_header ''Content-Encoding'' (wfile (do_OPTIONS (options_request ''/index.html'')))"
proof -
  have a: "headers_buffer (options_request ''/index.html'') = []"
    "wfile (options_request ''/index.html'') = []"
    "body (options_request ''/index.html'') = []"
    "\<not> endswith (path (options_request ''/index.html'')) ''.terrain''"
    by (simp_all add: options_request_def endswith_def)
  show ?thesis
    using a options_response [of "options_request ''/index.html''"] by blast
qed

section \<open>The options of the reprojection (C9)\<close>

lemma option_part_gdalwarp [simp]:
  "option_part (gdalwarp_docker proj f) = raster_warp_options"
  "option_part (gdalwarp_local proj f) = raster_warp_options"
  "option_part (gdalwarp_laz_docker tif) = laz_warp_options"
  "option_part (gdalwarp_laz_local tif out) = laz_warp_options"
  by (simp_all add: option_part_def arguments_of_def raster_warp_options_def
      laz_warp_options_def gdalwarp_docker_def gdalwarp_local_def gdalwarp_laz_docker_def
      gdalwarp_laz_local_def)

lemma main_terrain_warps:
  "emits (warps_with raster_warp_options) (main_terrain w proj argv)"
  unfolding terrain_defs Let_def
  by (auto intro!: emits_intros split: option.splits list.splits)

lemma main_laz_warps:
  "emits (warps_with laz_warp_options) (main_laz w proj argv)"
  unfolding laz_defs Let_def
  by (auto intro!: emits_intros split: option.splits list.splits)

text \<open>
  Claim C9 says that the reprojection asks for compressed output in either pipeline.
  In the raster pipeline \<open>gdalwarp\<close> is given the target reference system, the
  resampling and the output format and no creation option: a run on one GeoTIFF
  reprojects it without compression.
\<close>

theorem raster_reprojection_is_not_compressed:
  "events (main_terrain host_docker [''srv''] [] raw_one_tif) ! 2 =
     Run [''docker'', ''run'', ''--rm'',
          ''-v'', ''/srv/data/raw:/data/input'',
          ''-v'', ''/srv/data/processed:/data/output'',
          ''osgeo/gdal:latest'',
          ''gdalwarp'', ''-t_srs'', ''EPSG:4326'', ''-r'', ''bilinear'', ''-of'', ''GTiff'',
          ''/data/input/a.tif'', ''/data/output/wgs84.tif''] (Some 0) \<and>
   \<not> compressed_options
       [''-t_srs'', ''EPSG:4326'', ''-r'', ''bilinear'', ''-of'', ''GTiff'',
        ''/data/input/a.tif'', ''/data/output/wgs84.tif'']"
  by (simp add: run_defs compressed_options_def)

text \<open>
  Claim C9, amended.  Every \<open>gdalwarp\<close> command of either pipeline, containerised or
  local, has a fixed list of options before its source and destination.  In the raster
  pipeline it is \<open>-t_srs EPSG:4326 -r bilinear -of GTiff\<close>, with no compression; in the
  point-cloud pipeline it is the same followed by \<open>-co COMPRESS=LZW\<close>.
\<close>

theorem reprojection_options:
  "list_all (warps_with raster_warp_options) (events (main_terrain w proj argv fs)) \<and>
   list_all (warps_with laz_warp_options) (events (main_laz w proj argv fs)) \<and>
   option_given ''-t_srs'' ''EPSG:4326'' raster_warp_options \<and>
   option_given ''-r'' ''bilinear'' raster_warp_options \<and>
   option_given ''-of'' ''GTiff'' raster_warp_options \<and>
   \<not> compressed_options raster_warp_options \<and>
   option_given ''-t_srs'' ''EPSG:4326'' laz_warp_options \<and>
   option_given ''-r'' ''bilinear'' laz_warp_options \<and>
   option_given ''-of'' ''GTiff'' laz_warp_options \<and>
   option_given ''-co'' ''COMPRESS=LZW'' laz_warp_options \<and>
   compressed_options laz_warp_options"
proof -
  have "list_all (warps_with raster_warp_options) (events (main_terrain w proj argv fs))"
    using main_terrain_warps [of w proj argv] by (simp add: emits_def)
  moreover have "list_all (warps_with laz_warp_options) (events (main_laz w proj argv fs))"
    using main_laz_warps [of w proj argv] by (simp add: emits_def)
  ultimately show ?thesis
    by (simp add: option_given_def compressed_options_def raster_warp_options_def
        laz_warp_options_def)
qed

theorem reprojection_options_witness:
  "Run (gdalwarp_docker [''srv''] [''srv'', ''data'', ''raw'', ''a.tif'']) (Some 0)
     \<in> set (events (main_terrain host_docker [''srv''] [] raw_one_tif)) \<and>
   program_of (gdalwarp_docker [''srv''] [''srv'', ''data'', ''raw'', ''a.tif'']) = ''gdalwarp'' \<and>
   option_part (gdalwarp_docker [''srv''] [''srv'', ''data'', ''raw'', ''a.tif'']) =
     raster_warp_options \<and>
   Run (gdalwarp_laz_docker [''srv'', ''data'', ''processed'', ''dem.tif'']) (Some 0)
     \<in> set (events (main_laz host_docker [''srv''] [] raw_one_laz)) \<and>
   program_of (gdalwarp_laz_docker [''srv'', ''data'', ''processed'', ''dem.tif'']) = ''gdalwarp'' \<and>
   option_part (gdalwarp_laz_docker [''srv'', ''data'', ''processed'', ''dem.tif'']) =
     laz_warp_options"
proof -
  have a: "Run (gdalwarp_docker [''srv''] [''srv'', ''data'', ''raw'', ''a.tif'']) (Some 0)
     \<in> set (events (main_terrain host_docker [''srv''] [] raw_one_tif))"
    by (simp add: run_defs)
  have b: "Run (gdalwarp_laz_docker [''srv'', ''data'', ''processed'', ''dem.tif'']) (Some 0)
     \<in> set (events (main_laz host_docker [''srv''] [] raw_one_laz))"
    by (simp add: run_defs)
  have c: "program_of (gdalwarp_docker [''srv''] [''srv'', ''data'', ''raw'', ''a.tif'']) = ''gdalwarp''"
    "program_of (gdalwarp_laz_docker [''srv'', ''data'', ''processed'', ''dem.tif'']) = ''gdalwarp''"
    by simp_all
  have "list_all (warps_with raster_warp_options)
          (events (main_terrain host_docker [''srv''] [] raw_one_tif))"
    using reprojection_options [of host_docker "[''srv'']" "[]" raw_one_tif] by blast
  moreover have "list_all (warps_with laz_warp_options)
          (events (main_laz host_docker [''srv''] [] raw_one_laz))"
    using reprojection_options [of host_docker "[''srv'']" "[]" raw_one_laz] by blast
  ultimately have "warps_with raster_warp_options
          (Run (gdalwarp_docker [''srv''] [''srv'', ''data'', ''raw'', ''a.tif'']) (Some 0))"
    and "warps_with laz_warp_options
          (Run (gdalwarp_laz_docker [''srv'', ''data'', ''processed'', ''dem.tif'']) (Some 0))"
    using a b by (auto simp only: list_all_iff)
  with a b c show ?thesis
    by (simp only: warps_with.simps simp_thms)
qed

section \<open>A positional argument (C10)\<close>

lemma main_terrain_single_input:
  "emits (single_input_terrain proj a) (main_terrain w proj (a # rest))"
  unfolding terrain_defs Let_def
  by (simp add: io_bind_assoc io_bind_if first_input_def cong: if_cong)
     (auto intro!: emits_intros split: option.splits)

lemma main_laz_arg:
  "main_laz w proj (a # rest) =
     io_bind (io_exists a) (\<lambda>found.
       if \<not> found then sys_exit 1 else run_laz_pipeline w proj a)"
  by (simp add: main_laz_def select_laz_file_def io_bind_assoc io_bind_if cong: if_cong)

lemma main_laz_single_input:
  "emits (single_input_laz proj a) (main_laz w proj (a # rest))"
  unfolding main_laz_arg
  unfolding laz_defs Let_def
  by (auto intro!: emits_intros split: option.splits)

lemma main_terrain_docker_starts:
  assumes "path_exists a fs" and "which w fs ''docker''"
    and "mkdir (PROCESSED_DIR proj) fs = Inr fsa" and "mkdir (OUTPUT_DIR proj) fsa = Inr fsb"
  shows "\<exists>r tl. events (main_terrain w proj (a # rest) fs) = Run (gdalwarp_docker proj a) r # tl"
proof -
  have "events (process_with_docker w proj [a] fs) \<noteq> []"
    using assms(3,4) by (intro started_docker) simp_all
  moreover have "follows [gdalwarp_docker proj a, ctb_tile_docker proj, ctb_layer_docker proj]
      (events (process_with_docker w proj [a] fs))"
    using docker_single [of proj a w] by (simp add: chains_def)
  ultimately obtain r tl where
    "events (process_with_docker w proj [a] fs) = Run (gdalwarp_docker proj a) r # tl"
    by (blast elim: follows_first)
  then obtain tl' where "events (io_bind (process_with_docker w proj [a])
      (\<lambda>_. io_bind (verify_output proj) (\<lambda>_. io_return ())) fs) = Run (gdalwarp_docker proj a) r # tl'"
    by (rule events_bind_append)
  then obtain tl'' where "events (try_except_Exception (io_bind (process_with_docker w proj [a])
      (\<lambda>_. io_bind (verify_output proj) (\<lambda>_. io_return ()))) (\<lambda>e. sys_exit 1) fs) =
      Run (gdalwarp_docker proj a) r # tl''"
    by (rule events_try_append)
  moreover have "main_terrain w proj (a # rest) fs =
     try_except_Exception (io_bind (process_with_docker w proj [a])
      (\<lambda>_. io_bind (verify_output proj) (\<lambda>_. io_return ()))) (\<lambda>e. sys_exit 1) fs"
    using assms(1,2)
    by (simp add: main_terrain_def check_dependencies_def io_bind_which io_bind_exists
        io_bind_assoc)
  ultimately show ?thesis by simp
qed


lemma main_laz_starts:
  assumes "path_exists a fs" and "which w fs ''docker'' \<or> which w fs ''pdal''"
  shows "\<exists>r tl. events (main_laz w proj (a # rest) fs) =
     Run (if which w fs ''pdal'' then pdal_info_local a else pdal_info_docker a) r # tl"
proof -
  let ?info = "if which w fs ''pdal'' then pdal_info_local a else pdal_info_docker a"
  have ne: "?info \<noteq> []"
    by (simp add: pdal_info_local_def pdal_info_docker_def)
  have found: "which w fs (hd ?info)"
    using assms(2) by (auto simp: pdal_info_local_def pdal_info_docker_def)
  obtain r fs' where run: "subprocess_run w ?info fs = (Inr r, fs', [Run ?info (Some r)])"
    using ne found by (cases ?info; cases "tool w ?info fs") (auto simp: subprocess_run_def)
  have st: "lookup a fs \<noteq> None"
    using assms(1) by (simp add: path_exists_def)
  have "\<exists>tl. events (get_file_info w a fs) = Run ?info (Some r) # tl"
    using st run assms(2)
    by (cases "which w fs ''pdal''")
       (auto simp: get_file_info_def io_bind_def io_stat_def io_which_def io_return_def
         events_def split: option.splits)
  then obtain tl where g: "events (get_file_info w a fs) = Run ?info (Some r) # tl"
    by blast
  have "\<exists>k. main_laz w proj (a # rest) fs = io_bind (get_file_info w a) k fs"
  proof (cases "which w fs ''docker''")
    case True
    with assms(1) show ?thesis
      by (simp add: main_laz_arg run_laz_pipeline_def check_dependencies_laz_def
          io_bind_exists io_bind_which io_bind_assoc) (rule exI, rule refl)
  next
    case False
    with assms show ?thesis
      by (simp add: main_laz_arg run_laz_pipeline_def check_dependencies_laz_def
          io_bind_exists io_bind_which io_bind_assoc) (rule exI, rule refl)
  qed
  with g show ?thesis
    by (metis events_bind_append)
qed

lemma main_terrain_local_starts:
  assumes "path_exists a fs" and "\<not> which w fs ''docker''"
    and "which w fs ''gdalwarp''" and "which w fs ''ctb-tile''"
    and "mkdir (PROCESSED_DIR proj) fs = Inr fsa" and "mkdir (OUTPUT_DIR proj) fsa = Inr fsb"
  shows "\<exists>r tl. events (main_terrain w proj (a # rest) fs) = Run (gdalwarp_local proj a) r # tl"
proof -
  have "events (process_with_local_tools w proj [a] True True fs) \<noteq> []"
    using assms(5,6) by (intro started_local) simp_all
  moreover have "follows [gdalwarp_local proj a, ctb_tile_local proj, ctb_layer_local proj]
      (events (process_with_local_tools w proj [a] True True fs))"
    using local_single [of proj a w] by (simp add: chains_def)
  ultimately obtain r tl where
    "events (process_with_local_tools w proj [a] True True fs) = Run (gdalwarp_local proj a) r # tl"
    by (blast elim: follows_first)
  then obtain tl' where "events (io_bind (process_with_local_tools w proj [a] True True)
      (\<lambda>_. io_bind (verify_output proj) (\<lambda>_. io_return ())) fs) = Run (gdalwarp_local proj a) r # tl'"
    by (rule events_bind_append)
  then obtain tl'' where "events (try_except_Exception
      (io_bind (process_with_local_tools w proj [a] True True)
        (\<lambda>_. io_bind (verify_output proj) (\<lambda>_. io_return ()))) (\<lambda>e. sys_exit 1) fs) =
      Run (gdalwarp_local proj a) r # tl''"
    by (rule events_try_append)
  moreover have "main_terrain w proj (a # rest) fs =
     try_except_Exception (io_bind (process_with_local_tools w proj [a] True True)
      (\<lambda>_. io_bind (verify_output proj) (\<lambda>_. io_return ()))) (\<lambda>e. sys_exit 1) fs"
    using assms(1-4)
    by (simp add: main_terrain_def check_dependencies_def io_bind_which io_bind_exists
        io_bind_assoc)
  ultimately show ?thesis by simp
qed

text \<open>
  Claim C10.  When the first argument names an existing path \<open>a\<close>, neither script globs
  any directory, so the raw-data directory is not scanned, whatever it holds; the only
  directory searched is the output directory, by the final verification.  Every
  subprocess is one of a fixed list of commands built from \<open>a\<close>, none of which is a
  merge; and the run does start on \<open>a\<close>: the first command of the raster pipeline is
  the reprojection of \<open>a\<close>, the first command of the point-cloud pipeline reads \<open>a\<close>.
\<close>

theorem positional_argument_is_the_sole_input:
  "list_all (single_input_terrain proj a) (events (main_terrain w proj (a # rest) fs)) \<and>
   list_all (single_input_laz proj a) (events (main_laz w proj (a # rest) fs)) \<and>
   ''gdal_merge.py'' \<notin> program_of `
      set [gdalwarp_docker proj a, ctb_tile_docker proj, ctb_layer_docker proj,
           gdalwarp_local proj a, ctb_tile_local proj, ctb_layer_local proj] \<and>
   \<not> prefix (OUTPUT_DIR proj) (RAW_DATA_DIR proj) \<and>
   (path_exists a fs \<and> which w fs ''docker'' \<and>
    mkdir (PROCESSED_DIR proj) fs = Inr fsa \<and> mkdir (OUTPUT_DIR proj) fsa = Inr fsb \<longrightarrow>
      (\<exists>r tl. events (main_terrain w proj (a # rest) fs) =
         Run (gdalwarp_docker proj a) r # tl)) \<and>
   (path_exists a fs \<and> \<not> which w fs ''docker'' \<and> which w fs ''gdalwarp'' \<and>
    which w fs ''ctb-tile'' \<and>
    mkdir (PROCESSED_DIR proj) fs = Inr fsa \<and> mkdir (OUTPUT_DIR proj) fsa = Inr fsb \<longrightarrow>
      (\<exists>r tl. events (main_terrain w proj (a # rest) fs) =
         Run (gdalwarp_local proj a) r # tl)) \<and>
   (path_exists a fs \<and> (which w fs ''docker'' \<or> which w fs ''pdal'') \<longrightarrow>
      (\<exists>r tl. events (main_laz w proj (a # rest) fs) =
         Run (if which w fs ''pdal'' then pdal_info_local a else pdal_info_docker a) r # tl))"
proof (intro conjI impI)
  show "list_all (single_input_terrain proj a) (events (main_terrain w proj (a # rest) fs))"
    using main_terrain_single_input [of proj a w rest] by (simp add: emits_def)
  show "list_all (single_input_laz proj a) (events (main_laz w proj (a # rest) fs))"
    using main_laz_single_input [of proj a w rest] by (simp add: emits_def)
  show "''gdal_merge.py'' \<notin> program_of `
      set [gdalwarp_docker proj a, ctb_tile_docker proj, ctb_layer_docker proj,
           gdalwarp_local proj a, ctb_tile_local proj, ctb_layer_local proj]"
    by simp
  show "\<not> prefix (OUTPUT_DIR proj) (RAW_DATA_DIR proj)"
    by (simp add: OUTPUT_DIR_def RAW_DATA_DIR_def)
next
  assume "path_exists a fs \<and> which w fs ''docker'' \<and>
    mkdir (PROCESSED_DIR proj) fs = Inr fsa \<and> mkdir (OUTPUT_DIR proj) fsa = Inr fsb"
  then show "\<exists>r tl. events (main_terrain w proj (a # rest) fs) =
         Run (gdalwarp_docker proj a) r # tl"
    using main_terrain_docker_starts [of a fs w proj fsa fsb rest] by simp
next
  assume "path_exists a fs \<and> \<not> which w fs ''docker'' \<and> which w fs ''gdalwarp'' \<and>
    which w fs ''ctb-tile'' \<and>
    mkdir (PROCESSED_DIR proj) fs = Inr fsa \<and> mkdir (OUTPUT_DIR proj) fsa = Inr fsb"
  then show "\<exists>r tl. events (main_terrain w proj (a # rest) fs) =
         Run (gdalwarp_local proj a) r # tl"
    using main_terrain_local_starts [of a fs w proj fsa fsb rest] by simp
next
  assume "path_exists a fs \<and> (which w fs ''docker'' \<or> which w fs ''pdal'')"
  then show "\<exists>r tl. events (main_laz w proj (a # rest) fs) =
         Run (if which w fs ''pdal'' then pdal_info_local a else pdal_info_docker a) r # tl"
    using main_laz_starts [of a fs w proj rest] by simp
qed

theorem positional_argument_is_the_sole_input_witness:
  "path_exists [''srv'', ''data'', ''raw'', ''a.tif''] raw_three_tifs \<and>
   length (glob (RAW_DATA_DIR [''srv'']) ''*.tif'' raw_three_tifs) = 3 \<and>
   list_all (single_input_terrain [''srv''] [''srv'', ''data'', ''raw'', ''a.tif''])
     (events (main_terrain host_docker [''srv''] [[''srv'', ''data'', ''raw'', ''a.tif'']]
        raw_three_tifs)) \<and>
   events (main_terrain host_docker [''srv''] [[''srv'', ''data'', ''raw'', ''a.tif'']]
     raw_three_tifs) \<noteq> [] \<and>
   path_exists [''srv'', ''data'', ''raw'', ''dsm.laz''] raw_one_laz \<and>
   list_all (single_input_laz [''srv''] [''srv'', ''data'', ''raw'', ''dsm.laz''])
     (events (main_laz host_docker [''srv''] [[''srv'', ''data'', ''raw'', ''dsm.laz'']]
        raw_one_laz)) \<and>
   events (main_laz host_docker [''srv''] [[''srv'', ''data'', ''raw'', ''dsm.laz'']]
     raw_one_laz) \<noteq> []"
proof -
  have a: "path_exists [''srv'', ''data'', ''raw'', ''a.tif''] raw_three_tifs"
    "path_exists [''srv'', ''data'', ''raw'', ''dsm.laz''] raw_one_laz"
    by (simp_all add: path_exists_def raw_three_tifs_def raw_one_laz_def)
  have b: "which host_docker raw_three_tifs ''docker''" "which host_docker raw_one_laz ''docker''"
    by (simp_all add: host_docker_def host_def)
  have c: "length (glob (RAW_DATA_DIR [''srv'']) ''*.tif'' raw_three_tifs) = 3"
    by (simp add: glob_def RAW_DATA_DIR_def raw_three_tifs_def glob_match_def endswith_def)
  obtain fsa where d: "mkdir (PROCESSED_DIR [''srv'']) raw_three_tifs = Inr fsa"
    by (simp add: PROCESSED_DIR_def raw_three_tifs_def)
  then obtain fsb where e: "mkdir (OUTPUT_DIR [''srv'']) fsa = Inr fsb"
    by (auto simp add: PROCESSED_DIR_def OUTPUT_DIR_def raw_three_tifs_def)
  show ?thesis
    using a b c d e
      positional_argument_is_the_sole_input [of "[''srv'']" "[''srv'', ''data'', ''raw'', ''a.tif'']"
        host_docker "[]" raw_three_tifs fsa fsb]
      positional_argument_is_the_sole_input [of "[''srv'']" "[''srv'', ''data'', ''raw'', ''dsm.laz'']"
        host_docker "[]" raw_one_laz]
    by fastforce
qed

section \<open>Failures and the exit status (C3)\<close>

lemma sys_exit_Suc_0 [simp]:
  "failure_exits_1 (sys_exit n)" "fails_with_1 (sys_exit (Suc 0))"
  "exit_0_iff_completed c (sys_exit (Suc 0))"
  by (simp_all add: failure_exits_1_def fails_with_1_def exit_0_iff_completed_def sys_exit_def
      io_raise_def)

lemma quiet_primitives [simp]:
  "fails_closed (io_return x)" "fails_closed (io_mkdir p)" "fails_closed (first_input files)"
  "fails_closed (io_exists p)"
  by (simp_all add: fails_closed_silent)

lemma verify_output_quiet: "emits (\<lambda>e. \<not> failed_run e) (verify_output proj)"
  unfolding verify_output_def Let_def
  by (auto intro!: emits_intros)

lemma raster_body_fails_closed:
  "fails_closed
     (io_bind (if docker_available then process_with_docker w proj input_files
               else process_with_local_tools w proj input_files gdal_available ctb_available)
        (\<lambda>_. io_bind (verify_output proj) (\<lambda>_. io_return ())))"
  unfolding process_with_docker_def process_with_local_tools_def
  by (intro fails_closed_bind fails_closed_if fails_closed_run_check
        fails_closed_quiet [OF verify_output_quiet] allI)
     simp_all

lemma main_terrain_failure_exits_1: "failure_exits_1 (main_terrain w proj argv)"
  unfolding main_terrain_def check_dependencies_def find_input_files_def Let_def
  by (auto intro!: failure_exits_1_bind failure_exits_1_if failure_exits_1_try
        raster_body_fails_closed emits_intros
      split: option.splits list.splits)

lemma verification_laz_returns: "result (verification_laz proj fs) = Inr ()"
  by (simp add: verification_laz_def io_bind_exists io_bind_rglob io_report_def io_return_def)

lemma tile_is_not_layer: "ctb_tile_laz proj t \<noteq> ctb_layer_laz proj t"
  by (simp add: ctb_tile_laz_def ctb_layer_laz_def)

lemma verification_laz_no_run: "\<not> list_ex (completed c) (events (verification_laz proj fs))"
  by (simp add: verification_laz_def io_bind_exists io_bind_rglob io_report_def io_return_def)

lemma tiling_and_report_exit:
  "exit_0_iff_completed (ctb_layer_laz proj t) (tiling_and_report w proj t)"
  unfolding exit_0_iff_completed_def
proof
  fix fs
  let ?T = "ctb_tile_laz proj t" and ?L = "ctb_layer_laz proj t"
  show "exit_status (result (tiling_and_report w proj t fs)) =
      (if list_ex (completed ?L) (events (tiling_and_report w proj t fs)) then 0 else 1)"
  proof (cases "mkdir (OUTPUT_DIR proj) fs")
    case (Inl e)
    then show ?thesis
      by (auto simp: tiling_and_report_def create_terrain_tiles_def io_bind_assoc io_bind_mkdir
          dest!: mkdir_exception exception_exits_1)
  next
    case (Inr fs1)
    obtain rc fs2 where t1: "tool w ?T fs1 = (rc, fs2)"
      by (cases "tool w ?T fs1") auto
    obtain rc' fs3 where t2: "tool w ?L fs2 = (rc', fs3)"
      by (cases "tool w ?L fs2") auto
    obtain r fs4 evs where v: "verification_laz proj fs3 = (r, fs4, evs)"
      by (cases "verification_laz proj fs3") auto
    with verification_laz_returns [of proj fs3] verification_laz_no_run [of ?L proj fs3]
    have "r = Inr ()" and "\<not> list_ex (completed ?L) evs"
      by simp_all
    with Inr t1 t2 v show ?thesis
      by (simp add: tiling_and_report_def create_terrain_tiles_def io_bind_assoc io_bind_mkdir
          io_bind_run io_bind_exists tile_is_not_layer)
  qed
qed

lemma not_layer [simp]:
  "pdal_info_local a \<noteq> ctb_layer_laz proj t"
  "pdal_info_docker a \<noteq> ctb_layer_laz proj t"
  "pdal_pipeline_docker proj a out \<noteq> ctb_layer_laz proj t"
  "pdal_translate_docker a out \<noteq> ctb_layer_laz proj t"
  "pdal_pipeline_local proj \<noteq> ctb_layer_laz proj t"
  "gdalwarp_laz_docker tif \<noteq> ctb_layer_laz proj t"
  "gdalwarp_laz_local tif out \<noteq> ctb_layer_laz proj t"
  by (simp_all add: pdal_info_local_def pdal_info_docker_def pdal_pipeline_docker_def
      pdal_translate_docker_def pdal_pipeline_local_def gdalwarp_laz_docker_def
      gdalwarp_laz_local_def ctb_layer_laz_def)

lemma main_laz_exit:
  "exit_0_iff_completed (ctb_layer_laz proj (PROCESSED_DIR proj @ [''wgs84.tif'']))
     (main_laz w proj argv)"
  unfolding main_laz_def run_laz_pipeline_def tiling_and_report_def [symmetric]
  unfolding select_laz_file_def check_dependencies_laz_def get_file_info_def
    convert_laz_to_dem_docker_def convert_laz_simple_docker_def convert_laz_to_dem_pdal_def
    reproject_to_wgs84_def
  by (auto intro!: exit_0_iff_completed_bind exit_0_iff_completed_if tiling_and_report_exit
        emits_intros fails_with_1_intros
      split: list.splits)

text \<open>
  Claim C3 says that a failed subprocess at any stage, the tiling stage in particular,
  makes either script exit with a non-zero status.  The point-cloud script only warns
  when the tiling fails: in the run below both tiling commands exit with 1, no
  \<open>layer.json\<close> is written, and the script returns normally.
\<close>

theorem laz_tiling_failure_exits_0:
  "Run (ctb_tile_laz [''srv''] [''srv'', ''data'', ''processed'', ''wgs84.tif'']) (Some 1)
     \<in> set (events (main_laz (host [''docker''] tiling_fails) [''srv'']
          [[''srv'', ''data'', ''raw'', ''dsm.laz'']] raw_one_laz)) \<and>
   Run (ctb_layer_laz [''srv''] [''srv'', ''data'', ''processed'', ''wgs84.tif'']) (Some 1)
     \<in> set (events (main_laz (host [''docker''] tiling_fails) [''srv'']
          [[''srv'', ''data'', ''raw'', ''dsm.laz'']] raw_one_laz)) \<and>
   \<not> path_exists [''srv'', ''terrain-tiles'', ''layer.json'']
       (final_fs (main_laz (host [''docker''] tiling_fails) [''srv'']
          [[''srv'', ''data'', ''raw'', ''dsm.laz'']] raw_one_laz)) \<and>
   exit_status (result (main_laz (host [''docker''] tiling_fails) [''srv'']
          [[''srv'', ''data'', ''raw'', ''dsm.laz'']] raw_one_laz)) = 0"
  by (simp add: run_defs)

text \<open>
  Claim C3, amended.  The raster script exits with status 1 when a subprocess of any of
  its stages, tiling included, cannot be started or exits with a non-zero code, when its
  tools are missing, and when its input is missing.  The point-cloud script exits with
  status 1 when its input is missing and when neither docker nor pdal is found, and
  with status 0 or 1 always: 0 exactly when the second tiling command has run to its
  end, whatever the exit codes of the two tiling commands, and 1 whenever the run ends
  earlier.
\<close>

theorem unrecoverable_failures_and_exit_status:
  "(Run cmd r \<in> set (events (main_terrain w proj argv fs)) \<and> r \<noteq> Some 0 \<longrightarrow>
      exit_status (result (main_terrain w proj argv fs)) = 1) \<and>
   (\<not> which w fs ''docker'' \<and> \<not> (which w fs ''gdalwarp'' \<and> which w fs ''ctb-tile'') \<longrightarrow>
      exit_status (result (main_terrain w proj argv fs)) = 1) \<and>
   (argv = a # rest \<and> \<not> path_exists a fs \<longrightarrow>
      exit_status (result (main_terrain w proj argv fs)) = 1 \<and>
      exit_status (result (main_laz w proj argv fs)) = 1) \<and>
   (argv = [] \<and> glob (RAW_DATA_DIR proj) ''*.tif'' fs = [] \<and>
    glob (RAW_DATA_DIR proj) ''*.tiff'' fs = [] \<longrightarrow>
      exit_status (result (main_terrain w proj argv fs)) = 1) \<and>
   (argv = [] \<and> glob (RAW_DATA_DIR proj) ''*.laz'' fs = [] \<and>
    glob (RAW_DATA_DIR proj) ''*.las'' fs = [] \<longrightarrow>
      exit_status (result (main_laz w proj argv fs)) = 1) \<and>
   (\<not> which w (final_fs (select_laz_file proj argv fs)) ''docker'' \<and>
    \<not> which w (final_fs (select_laz_file proj argv fs)) ''pdal'' \<longrightarrow>
      exit_status (result (main_laz w proj argv fs)) = 1) \<and>
   exit_status (result (main_laz w proj argv fs)) =
     (if list_ex (completed (ctb_layer_laz proj (PROCESSED_DIR proj @ [''wgs84.tif''])))
           (events (main_laz w proj argv fs))
      then 0 else 1)"
proof (intro conjI impI)
  assume "Run cmd r \<in> set (events (main_terrain w proj argv fs)) \<and> r \<noteq> Some 0"
  then have "list_ex failed_run (events (main_terrain w proj argv fs))"
    by (auto simp: list_ex_iff intro!: bexI [of _ "Run cmd r"])
  with main_terrain_failure_exits_1 [of w proj argv]
  show "exit_status (result (main_terrain w proj argv fs)) = 1"
    by (simp add: failure_exits_1_def)
next
  assume "\<not> which w fs ''docker'' \<and> \<not> (which w fs ''gdalwarp'' \<and> which w fs ''ctb-tile'')"
  then show "exit_status (result (main_terrain w proj argv fs)) = 1"
    by (auto simp: main_terrain_def check_dependencies_def io_bind_which io_bind_assoc
        sys_exit_def io_raise_def)
next
  assume a: "argv = a # rest \<and> \<not> path_exists a fs"
  then show "exit_status (result (main_terrain w proj argv fs)) = 1"
    apply (auto simp: main_terrain_def check_dependencies_def io_bind_which io_bind_exists
        io_bind_assoc sys_exit_def io_raise_def)
     apply (simp_all add: io_bind_def)
    done
  from a show "exit_status (result (main_laz w proj argv fs)) = 1"
    by (simp add: main_laz_arg io_bind_exists sys_exit_def io_raise_def)
next
  assume "argv = [] \<and> glob (RAW_DATA_DIR proj) ''*.tif'' fs = [] \<and>
    glob (RAW_DATA_DIR proj) ''*.tiff'' fs = []"
  then show "exit_status (result (main_terrain w proj argv fs)) = 1"
    by (auto simp: main_terrain_none split: sum.splits dest: mkdir_error)
next
  assume "argv = [] \<and> glob (RAW_DATA_DIR proj) ''*.laz'' fs = [] \<and>
    glob (RAW_DATA_DIR proj) ''*.las'' fs = []"
  then show "exit_status (result (main_laz w proj argv fs)) = 1"
    by (auto simp: main_laz_none split: sum.splits dest: mkdir_error)
next
  assume a: "\<not> which w (final_fs (select_laz_file proj argv fs)) ''docker'' \<and>
    \<not> which w (final_fs (select_laz_file proj argv fs)) ''pdal''"
  obtain r' fs' evs where s: "select_laz_file proj argv fs = (r', fs', evs)"
    by (cases "select_laz_file proj argv fs") auto
  with a have g: "run_laz_pipeline w proj laz fs' = (Inl (SystemExit 1), fs', [])" for laz
    by (simp add: run_laz_pipeline_gate)
  from s select_laz_file_shape [of proj argv fs]
  have x: "\<And>e. r' = Inl e \<Longrightarrow> exit_status (Inl e) = 1"
    by simp
  show "exit_status (result (main_laz w proj argv fs)) = 1"
    using s g x by (cases r') (simp_all add: main_laz_def io_bind_def)
next
  show "exit_status (result (main_laz w proj argv fs)) =
     (if list_ex (completed (ctb_layer_laz proj (PROCESSED_DIR proj @ [''wgs84.tif''])))
           (events (main_laz w proj argv fs))
      then 0 else 1)"
    using main_laz_exit [of proj w argv] by (simp add: exit_0_iff_completed_def)
qed

theorem unrecoverable_failures_and_exit_status_witness:
  "Run (ctb_tile_docker [''srv'']) (Some 1)
     \<in> set (events (main_terrain (host [''docker''] tiling_fails) [''srv''] [] raw_one_tif)) \<and>
   exit_status (result (main_terrain (host [''docker''] tiling_fails) [''srv''] [] raw_one_tif)) = 1 \<and>
   \<not> which (host [''gdalwarp''] exits_zero) raw_one_tif ''docker'' \<and>
   exit_status (result (main_terrain (host [''gdalwarp''] exits_zero) [''srv''] [] raw_one_tif)) = 1 \<and>
   \<not> path_exists [''srv'', ''nothing.laz''] raw_one_laz \<and>
   exit_status (result (main_laz host_docker [''srv''] [[''srv'', ''nothing.laz'']] raw_one_laz)) = 1 \<and>
   exit_status (result (main_terrain host_docker [''srv''] [] processed_only)) = 1 \<and>
   exit_status (result (main_laz host_docker [''srv''] [] processed_only)) = 1 \<and>
   exit_status (result (main_laz (host [''gdalwarp''] exits_zero) [''srv''] [] raw_one_laz)) = 1 \<and>
   list_ex (completed (ctb_layer_laz [''srv''] (PROCESSED_DIR [''srv''] @ [''wgs84.tif''])))
     (events (main_laz host_docker [''srv''] [] raw_one_laz)) \<and>
   exit_status (result (main_laz host_docker [''srv''] [] raw_one_laz)) = 0"
proof -
  have 1: "Run (ctb_tile_docker [''srv'']) (Some 1)
     \<in> set (events (main_terrain (host [''docker''] tiling_fails) [''srv''] [] raw_one_tif))"
    "Some (1::int) \<noteq> Some 0"
    by (simp_all add: run_defs)
  have 2: "\<not> which (host [''gdalwarp''] exits_zero) fs ''docker''"
    "\<not> which (host [''gdalwarp''] exits_zero) fs ''ctb-tile''"
    "\<not> which (host [''gdalwarp''] exits_zero) fs ''pdal''" for fs
    by (simp_all add: host_def)
  have 3: "\<not> path_exists [''srv'', ''nothing.laz''] raw_one_laz"
    by (simp add: path_exists_def raw_one_laz_def)
  have 4: "glob (RAW_DATA_DIR [''srv'']) ''*.tif'' processed_only = []"
    "glob (RAW_DATA_DIR [''srv'']) ''*.tiff'' processed_only = []"
    "glob (RAW_DATA_DIR [''srv'']) ''*.laz'' processed_only = []"
    "glob (RAW_DATA_DIR [''srv'']) ''*.las'' processed_only = []"
    by (simp_all add: glob_def RAW_DATA_DIR_def processed_only_def)
  have 5: "list_ex (completed (ctb_layer_laz [''srv''] (PROCESSED_DIR [''srv''] @ [''wgs84.tif''])))
     (events (main_laz host_docker [''srv''] [] raw_one_laz))"
    by (simp add: run_defs)
  note t = unrecoverable_failures_and_exit_status
  from 1 t [of "ctb_tile_docker [''srv'']" "Some 1" "host [''docker''] tiling_fails" "[''srv'']"
      "[]" raw_one_tif]
  have a: "exit_status (result (main_terrain (host [''docker''] tiling_fails) [''srv''] []
      raw_one_tif)) = 1"
    by blast
  from 2 t [of _ _ "host [''gdalwarp''] exits_zero" "[''srv'']" "[]" raw_one_tif]
  have b: "exit_status (result (main_terrain (host [''gdalwarp''] exits_zero) [''srv''] []
      raw_one_tif)) = 1"
    by blast
  from 3 t [of _ _ host_docker "[''srv'']" "[[''srv'', ''nothing.laz'']]" raw_one_laz
      "[''srv'', ''nothing.laz'']" "[]"]
  have c: "exit_status (result (main_laz host_docker [''srv''] [[''srv'', ''nothing.laz'']]
      raw_one_laz)) = 1"
    by blast
  from 4 t [of _ _ host_docker "[''srv'']" "[]" processed_only]
  have d: "exit_status (result (main_terrain host_docker [''srv''] [] processed_only)) = 1"
    "exit_status (result (main_laz host_docker [''srv''] [] processed_only)) = 1"
    by blast+
  from 2 t [of _ _ "host [''gdalwarp''] exits_zero" "[''srv'']" "[]" raw_one_laz]
  have e: "exit_status (result (main_laz (host [''gdalwarp''] exits_zero) [''srv''] []
      raw_one_laz)) = 1"
    by blast
  from 5 t [of _ _ host_docker "[''srv'']" "[]" raw_one_laz]
  have f: "exit_status (result (main_laz host_docker [''srv''] [] raw_one_laz)) = 0"
    by simp
  from 1 2 3 5 a b c d e f show ?thesis
    by blast
qed

end
